theory Spec2Isabelle
  imports Main "HOL-Library.AList" "HOL-Library.Char_ord" "HOL-Library.List_Lexorder"
    "HOL-Library.Multiset" "HOL-Library.Product_Lexorder"
begin

section \<open>The relational store\<close>

text \<open>
  The tables of \<^verbatim>\<open>files/timetable.db\<close> as the two source files use them. The column
  types are those of the \<^verbatim>\<open>CREATE TABLE\<close> statements in
  \<^verbatim>\<open>TimetableApp._connect_db\<close>: a \<^verbatim>\<open>NOT NULL\<close> text column is a \<open>string\<close>, a
  nullable one a \<open>string option\<close> (\<open>None\<close> is SQL NULL), an integer column an \<open>int\<close>.
  \<^verbatim>\<open>SUBJECTS\<close> has the column \<^verbatim>\<open>COLOR\<close> that the loader's queries select. A table is
  the list of its rows in the order in which a query without \<^verbatim>\<open>ORDER BY\<close> returns them.
  The record fields carry the alias under which the queries of the source name the table
  (\<^verbatim>\<open>sch.DAYID\<close>, \<^verbatim>\<open>sl.DAY_OF_WEEK\<close>, \<^verbatim>\<open>s.SUBCODE\<close>, \<^verbatim>\<open>f.INI\<close>).
\<close>

record schedule_row =
  sch_ID :: string
  sch_DAYID :: int
  sch_PERIODID :: int
  sch_SUBCODE :: string
  sch_SECTION :: string
  sch_FINI :: string

record lesson_row =
  sl_SCHEDULE_ID :: int
  sl_CLASS_NAME :: string
  sl_DAY_OF_WEEK :: string
  sl_PERIOD_NUMBER :: int
  sl_SUBJECT_CODE :: "string option"
  sl_TEACHER_ID :: "string option"

record subject_row =
  s_SUBCODE :: string
  s_SUBNAME :: string
  s_COLOR :: "string option"

record faculty_row =
  f_FID :: string
  f_NAME :: string
  f_INI :: "string option"

text \<open>
  \<^verbatim>\<open>LESSONS\<close> and \<^verbatim>\<open>TIMETABLE_SETTINGS\<close> are only read by the source; their columns
  are the ones the queries select, all nullable text apart from the names they are
  filtered by. Of the table \<^verbatim>\<open>CLASS\<close> only the column \<^verbatim>\<open>SECTION\<close> is read, so the
  table is the list of its values.
\<close>

record lessons_row =
  l_CLASS_NAME :: string
  l_SUBJECT_CODE :: "string option"
  l_LESSON_TYPE :: "string option"

record settings_row =
  setting_name :: string
  setting_value :: "string option"

text \<open>
  A table that does not exist makes every query on it raise \<^verbatim>\<open>sqlite3.Error\<close>; it is
  \<open>None\<close> here. The database file itself may be missing (\<^verbatim>\<open>os.path.exists\<close>), which
  is \<open>None\<close> for the whole store where a function takes a \<open>db option\<close>.
\<close>

record db =
  SCHEDULE :: "schedule_row list option"
  SCHEDULED_LESSONS :: "lesson_row list option"
  SUBJECTS :: "subject_row list option"
  FACULTY :: "faculty_row list option"
  LESSONS :: "lessons_row list option"
  TIMETABLE_SETTINGS :: "settings_row list option"
  CLASS :: "string list option"

section \<open>The cell swap: \<^verbatim>\<open>TimetableDisplayComponent.update_db_with_cell_swap\<close>\<close>

text \<open>
  A grid cell is the key \<^verbatim>\<open>(class_idx, day_idx, period_idx)\<close> of
  \<^verbatim>\<open>self.timetable_cells\<close>, built from \<^verbatim>\<open>range\<close> in
  \<^verbatim>\<open>create_timetable_grid_cells\<close>: three natural numbers.
\<close>

type_synonym cell_key = "nat \<times> nat \<times> nat"

text \<open>\<^verbatim>\<open>self.class_names[idx] if idx < len(self.class_names) else None\<close>\<close>

definition class_name_at :: "string list \<Rightarrow> nat \<Rightarrow> string option" where
  "class_name_at class_names idx =
     (if idx < length class_names then Some (class_names ! idx) else None)"

text \<open>Python truth of an optional string: \<^verbatim>\<open>None\<close> and \<^verbatim>\<open>""\<close> are false.\<close>

fun truthy :: "string option \<Rightarrow> bool" where
  "truthy None = False"
| "truthy (Some s) = (s \<noteq> [])"

text \<open>\<^verbatim>\<open>WHERE SECTION=? AND DAYID=? AND PERIODID=?\<close>\<close>

definition schedule_at :: "string \<Rightarrow> int \<Rightarrow> int \<Rightarrow> schedule_row \<Rightarrow> bool" where
  "schedule_at section day period r \<longleftrightarrow>
     sch_SECTION r = section \<and> sch_DAYID r = day \<and> sch_PERIODID r = period"

text \<open>
  \<^verbatim>\<open>SELECT SUBCODE, FINI FROM SCHEDULE WHERE ...\<close> followed by \<^verbatim>\<open>fetchone()\<close>: the
  first matching row, if there is one.
\<close>

definition select_schedule_one ::
  "schedule_row list \<Rightarrow> string \<Rightarrow> int \<Rightarrow> int \<Rightarrow> (string \<times> string) option" where
  "select_schedule_one rows section day period =
     map_option (\<lambda>r. (sch_SUBCODE r, sch_FINI r)) (find (schedule_at section day period) rows)"

text \<open>\<^verbatim>\<open>UPDATE SCHEDULE SET SUBCODE=?, FINI=? WHERE ...\<close>: every matching row is rewritten.\<close>

definition update_schedule ::
  "string \<times> string \<Rightarrow> string \<Rightarrow> int \<Rightarrow> int \<Rightarrow> schedule_row list \<Rightarrow> schedule_row list" where
  "update_schedule v section day period rows =
     map (\<lambda>r. if schedule_at section day period r
              then r\<lparr>sch_SUBCODE := fst v, sch_FINI := snd v\<rparr> else r) rows"

text \<open>The first \<^verbatim>\<open>try\<close> block: both rows are read, then both updates run if both exist.\<close>

definition swap_schedule ::
  "string \<Rightarrow> nat \<Rightarrow> nat \<Rightarrow> string \<Rightarrow> nat \<Rightarrow> nat \<Rightarrow> schedule_row list \<Rightarrow> schedule_row list" where
  "swap_schedule class1_name day1_idx period1_idx class2_name day2_idx period2_idx rows =
     (let subj1 = select_schedule_one rows class1_name (int day1_idx) (int period1_idx);
          subj2 = select_schedule_one rows class2_name (int day2_idx) (int period2_idx)
      in case (subj1, subj2) of
           (Some v1, Some v2) \<Rightarrow>
              update_schedule v1 class2_name (int day2_idx) (int period2_idx)
                (update_schedule v2 class1_name (int day1_idx) (int period1_idx) rows)
         | _ \<Rightarrow> rows)"

text \<open>\<^verbatim>\<open>WHERE CLASS_NAME=? AND DAY_OF_WEEK=? AND PERIOD_NUMBER=?\<close>\<close>

definition lesson_at :: "string \<Rightarrow> string \<Rightarrow> int \<Rightarrow> lesson_row \<Rightarrow> bool" where
  "lesson_at class_name day_code period_number r \<longleftrightarrow>
     sl_CLASS_NAME r = class_name \<and> sl_DAY_OF_WEEK r = day_code
       \<and> sl_PERIOD_NUMBER r = period_number"

definition select_lesson_one ::
  "lesson_row list \<Rightarrow> string \<Rightarrow> string \<Rightarrow> int \<Rightarrow> (string option \<times> string option) option" where
  "select_lesson_one rows class_name day_code period_number =
     map_option (\<lambda>r. (sl_SUBJECT_CODE r, sl_TEACHER_ID r))
       (find (lesson_at class_name day_code period_number) rows)"

definition update_lessons ::
  "string option \<times> string option \<Rightarrow> string \<Rightarrow> string \<Rightarrow> int \<Rightarrow> lesson_row list
     \<Rightarrow> lesson_row list" where
  "update_lessons v class_name day_code period_number rows =
     map (\<lambda>r. if lesson_at class_name day_code period_number r
              then r\<lparr>sl_SUBJECT_CODE := fst v, sl_TEACHER_ID := snd v\<rparr> else r) rows"

definition day_codes :: "string list" where
  "day_codes = [''Mo'', ''Tu'', ''We'', ''Th'', ''Fr'', ''Sa'', ''Su'']"

text \<open>\<^verbatim>\<open>day_codes[day_idx] if day_idx < len(day_codes) else None\<close>\<close>

definition day_code_at :: "nat \<Rightarrow> string option" where
  "day_code_at day_idx = (if day_idx < length day_codes then Some (day_codes ! day_idx) else None)"

text \<open>
  The second \<^verbatim>\<open>try\<close> block. The legacy table is addressed by day code and by the
  1-based period \<^verbatim>\<open>period_idx + 1\<close>.
\<close>

definition swap_lessons ::
  "string \<Rightarrow> nat \<Rightarrow> nat \<Rightarrow> string \<Rightarrow> nat \<Rightarrow> nat \<Rightarrow> lesson_row list \<Rightarrow> lesson_row list" where
  "swap_lessons class1_name day1_idx period1_idx class2_name day2_idx period2_idx rows =
     (let day1_code = day_code_at day1_idx; day2_code = day_code_at day2_idx
      in if truthy day1_code \<and> truthy day2_code then
           (let lesson1 = select_lesson_one rows class1_name (the day1_code) (int period1_idx + 1);
                lesson2 = select_lesson_one rows class2_name (the day2_code) (int period2_idx + 1)
            in case (lesson1, lesson2) of
                 (Some v1, Some v2) \<Rightarrow>
                    update_lessons v1 class2_name (the day2_code) (int period2_idx + 1)
                      (update_lessons v2 class1_name (the day1_code) (int period1_idx + 1) rows)
               | _ \<Rightarrow> rows)
         else rows)"

text \<open>
  The whole operation on the store. It returns at once when a class name is missing or
  empty, or when the database file does not exist. A missing table makes the first
  \<^verbatim>\<open>SELECT\<close> of its block raise \<^verbatim>\<open>sqlite3.Error\<close>, which the block catches: that
  table stays as it is. The result is the store after \<^verbatim>\<open>conn.commit()\<close>.
\<close>

definition update_db_with_cell_swap ::
  "string list \<Rightarrow> cell_key \<Rightarrow> cell_key \<Rightarrow> db option \<Rightarrow> db option" where
  "update_db_with_cell_swap class_names cell1 cell2 store =
     (case (cell1, cell2) of
        ((class1_idx, day1_idx, period1_idx), (class2_idx, day2_idx, period2_idx)) \<Rightarrow>
          (let class1_name = class_name_at class_names class1_idx;
               class2_name = class_name_at class_names class2_idx
           in if \<not> truthy class1_name \<or> \<not> truthy class2_name then store
              else case store of
                     None \<Rightarrow> None
                   | Some d \<Rightarrow>
                       Some (d\<lparr>SCHEDULE :=
                                 map_option (swap_schedule (the class1_name) day1_idx period1_idx
                                               (the class2_name) day2_idx period2_idx) (SCHEDULE d),
                               SCHEDULED_LESSONS :=
                                 map_option (swap_lessons (the class1_name) day1_idx period1_idx
                                               (the class2_name) day2_idx period2_idx)
                                   (SCHEDULED_LESSONS d)\<rparr>)))"

section \<open>Python built-ins used by the source\<close>

text \<open>
  A string is a Python \<^verbatim>\<open>str\<close> whose code points are below 256, one character for
  each code point. \<^verbatim>\<open>s.split(sep)\<close> with a one-character separator cuts at every
  occurrence and always returns at least one piece.
\<close>

fun split_on :: "char \<Rightarrow> string \<Rightarrow> string list" where
  "split_on sep [] = [[]]"
| "split_on sep (c # cs) =
     (if c = sep then [] # split_on sep cs
      else (case split_on sep cs of
              [] \<Rightarrow> [[c]]
            | piece # pieces \<Rightarrow> (c # piece) # pieces))"

text \<open>
  \<^verbatim>\<open>s.split(sep, 1)\<close> on a string that contains the separator: the part before the
  first occurrence and the part after it.
\<close>

definition split_once :: "char \<Rightarrow> string \<Rightarrow> string \<times> string" where
  "split_once sep s = (takeWhile (\<lambda>c. c \<noteq> sep) s, tl (dropWhile (\<lambda>c. c \<noteq> sep) s))"

text \<open>
  \<^verbatim>\<open>int(s)\<close> on a string, as CPython 3.11 computes it. Blanks at both ends are
  skipped: tab, line feed, vertical tab, form feed, carriage return and space, and the two
  blanks above 127, U+0085 and U+00A0, which \<^verbatim>\<open>int\<close> turns into spaces first. The
  separators U+001C to U+001F are not skipped. One sign is allowed, and the rest is a
  non-empty run of decimal digits in which single underscores may separate digits. A
  literal of more than 4300 digits is refused (\<^verbatim>\<open>sys.get_int_max_str_digits()\<close>).
  Anything else raises \<^verbatim>\<open>ValueError\<close>, which is \<open>None\<close> here.
\<close>

definition is_space :: "char \<Rightarrow> bool" where
  "is_space c \<longleftrightarrow> c \<in> set [CHR 0x09, CHR 0x0A, CHR 0x0B, CHR 0x0C, CHR 0x0D, CHR '' '',
                            CHR 0x85, CHR 0xA0]"

definition strip :: "string \<Rightarrow> string" where
  "strip s = rev (dropWhile is_space (rev (dropWhile is_space s)))"

definition is_digit :: "char \<Rightarrow> bool" where
  "is_digit c \<longleftrightarrow> CHR ''0'' \<le> c \<and> c \<le> CHR ''9''"

definition digit_val :: "char \<Rightarrow> int" where
  "digit_val c = int (of_char c) - 48"

text \<open>The digits of a literal, with the value read so far; the first character is a digit.\<close>

fun digits_value :: "int \<Rightarrow> string \<Rightarrow> int option" where
  "digits_value acc [] = Some acc"
| "digits_value acc [c] = (if is_digit c then Some (10 * acc + digit_val c) else None)"
| "digits_value acc (c # c' # cs) =
     (if is_digit c then
        (if c' = CHR ''_'' then
           (if cs = [] then None else digits_value (10 * acc + digit_val c) cs)
         else digits_value (10 * acc + digit_val c) (c' # cs))
      else None)"

definition max_str_digits :: nat where
  "max_str_digits = 4300"

definition py_int :: "string \<Rightarrow> int option" where
  "py_int s =
     (case strip s of
        [] \<Rightarrow> None
      | c # cs \<Rightarrow>
          (let literal = (if c = CHR ''-'' \<or> c = CHR ''+'' then cs else c # cs)
           in if literal = [] \<or> length (filter is_digit literal) > max_str_digits then None
              else if c = CHR ''-'' then map_option uminus (digits_value 0 literal)
              else digits_value 0 literal))"

text \<open>\<^verbatim>\<open>str(n)\<close> of an integer, as the f-string \<^verbatim>\<open>f"Day{day_id}"\<close> formats it.\<close>

fun str_nat :: "nat \<Rightarrow> string" where
  "str_nat n = (if n < 10 then [char_of (48 + n)]
                else str_nat (n div 10) @ [char_of (48 + n mod 10)])"

definition str_int :: "int \<Rightarrow> string" where
  "str_int i = (if i < 0 then CHR ''-'' # str_nat (nat (- i)) else str_nat (nat i))"

section \<open>The settings resolver: \<^verbatim>\<open>TimetableApp._load_timetable_structure\<close>\<close>

definition DEFAULT_DAYS :: "string list" where
  "DEFAULT_DAYS = [''Mo'', ''Tu'', ''We'', ''Th'', ''Fr'', ''Sa'']"

text \<open>A Python \<^verbatim>\<open>dict\<close> keeps insertion order: an association list.\<close>

definition DEFAULT_PERIODS_INFO :: "(int \<times> string) list" where
  "DEFAULT_PERIODS_INFO =
     [(1, ''8:00 - 8:45''), (2, ''9:00 - 9:45''), (3, ''10:00 - 10:45''),
      (4, ''11:00 - 11:45''), (5, ''12:00 - 12:45''), (6, ''13:00 - 13:45'')]"

text \<open>
  \<^verbatim>\<open>SELECT setting_value FROM TIMETABLE_SETTINGS WHERE setting_name = ?\<close> with
  \<^verbatim>\<open>fetchone()\<close>, then the test \<^verbatim>\<open>row and row[0]\<close>: the value of the first matching
  row when it is neither NULL nor empty.
\<close>

definition fetch_setting :: "settings_row list \<Rightarrow> string \<Rightarrow> string option" where
  "fetch_setting rows name =
     (case find (\<lambda>r. setting_name r = name) rows of
        None \<Rightarrow> None
      | Some r \<Rightarrow> if truthy (setting_value r) then setting_value r else None)"

text \<open>
  The loop over \<^verbatim>\<open>periods_row[0].split(',')\<close>. A piece without a colon is skipped; a
  piece whose period number is not an integer raises, which leaves the loop (\<open>None\<close>).
  \<^verbatim>\<open>periods_data[k] = v\<close> overwrites the value of an existing key in place.
\<close>

fun parse_periods :: "string list \<Rightarrow> (int \<times> string) list \<Rightarrow> (int \<times> string) list option" where
  "parse_periods [] periods_data = Some periods_data"
| "parse_periods (period_conf # rest) periods_data =
     (if CHR '':'' \<in> set period_conf then
        (case split_once CHR '':'' period_conf of
           (period_num, time_range) \<Rightarrow>
             (case py_int period_num of
                None \<Rightarrow> None
              | Some k \<Rightarrow> parse_periods rest (AList.update k time_range periods_data)))
      else parse_periods rest periods_data)"

text \<open>
  The periods after the \<^verbatim>\<open>PERIODS_CONFIG\<close> block: the parsed map replaces the current
  one only when the parse did not raise and produced at least one pair.
\<close>

definition apply_periods_config :: "string option \<Rightarrow> (int \<times> string) list \<Rightarrow> (int \<times> string) list" where
  "apply_periods_config periods_row periods_info =
     (case periods_row of
        None \<Rightarrow> periods_info
      | Some v \<Rightarrow>
          (case parse_periods (split_on CHR '','' v) [] of
             None \<Rightarrow> periods_info
           | Some periods_data \<Rightarrow> if periods_data \<noteq> [] then periods_data else periods_info))"

text \<open>
  The \<^verbatim>\<open>NUM_PERIODS\<close> block, which the source runs after the \<^verbatim>\<open>PERIODS_CONFIG\<close>
  block whatever that block did.
\<close>

definition apply_num_periods :: "string option \<Rightarrow> (int \<times> string) list \<Rightarrow> (int \<times> string) list" where
  "apply_num_periods num_periods_row periods_info =
     (case num_periods_row of
        None \<Rightarrow> periods_info
      | Some v \<Rightarrow>
          (case py_int v of
             None \<Rightarrow> periods_info
           | Some num_periods \<Rightarrow> filter (\<lambda>(k, v). k \<le> num_periods) DEFAULT_PERIODS_INFO))"

text \<open>
  \<open>None\<close> for the store is \<^verbatim>\<open>self.conn\<close> being \<^verbatim>\<open>None\<close>; a store without the
  \<^verbatim>\<open>TIMETABLE_SETTINGS\<close> table returns the defaults as well.
\<close>

definition load_timetable_structure :: "db option \<Rightarrow> string list \<times> (int \<times> string) list" where
  "load_timetable_structure conn =
     (let days = DEFAULT_DAYS; periods_info = DEFAULT_PERIODS_INFO
      in case conn of
           None \<Rightarrow> (days, periods_info)
         | Some d \<Rightarrow>
             (case TIMETABLE_SETTINGS d of
                None \<Rightarrow> (days, periods_info)
              | Some rows \<Rightarrow>
                  (let days = (case fetch_setting rows ''DAYS_ENABLED'' of
                                 None \<Rightarrow> days
                               | Some v \<Rightarrow>
                                   (let days_enabled = split_on CHR '','' v
                                    in filter (\<lambda>day. day \<in> set days_enabled) DEFAULT_DAYS));
                       periods_info =
                         apply_periods_config (fetch_setting rows ''PERIODS_CONFIG'') periods_info;
                       periods_info =
                         apply_num_periods (fetch_setting rows ''NUM_PERIODS'') periods_info
                   in (days, periods_info))))"

section \<open>The conflict detectors\<close>

subsection \<open>\<^verbatim>\<open>load_classes_from_db\<close>\<close>

text \<open>
  \<^verbatim>\<open>SELECT DISTINCT x FROM t ORDER BY x\<close>: the distinct values in binary text order.
  A failing query leaves \<^verbatim>\<open>classes\<close> empty, and an empty list is replaced by five
  default names; a missing database file returns the empty list at once.
\<close>

definition distinct_sorted :: "string list \<Rightarrow> string list" where
  "distinct_sorted xs = sort (remdups xs)"

definition load_classes_from_db :: "db option \<Rightarrow> string list" where
  "load_classes_from_db store =
     (case store of
        None \<Rightarrow> []
      | Some d \<Rightarrow>
          (let classes =
             (case SCHEDULE d of
                None \<Rightarrow> []
              | Some rows \<Rightarrow>
                  (let classes = distinct_sorted (map sch_SECTION rows)
                   in if classes \<noteq> [] then classes
                      else (case SCHEDULED_LESSONS d of
                              None \<Rightarrow> []
                            | Some lessons \<Rightarrow>
                                (let classes = distinct_sorted (map sl_CLASS_NAME lessons)
                                 in if classes \<noteq> [] then classes
                                    else (case CLASS d of
                                            None \<Rightarrow> []
                                          | Some sections \<Rightarrow> distinct_sorted sections)))))
           in if classes \<noteq> [] then classes
              else map (\<lambda>i. ''Class '' @ str_nat (i + 1)) [0..<5]))"

subsection \<open>The whole-store detector: \<^verbatim>\<open>check_faculty_conflicts\<close>\<close>

text \<open>
  \<^verbatim>\<open>ORDER BY\<close> fixes the order of the rows of a join only up to rows with equal sort
  keys; which of those comes first depends on how the engine runs the join (for the
  self-joins below, on the index it builds for the inner table). The engine's choice is the
  parameter \<open>ties\<close>: exchanges of neighbours, applied to the joined rows before they are
  sorted stably. Whatever \<open>ties\<close> is, the result has the rows of the join and is sorted by
  the keys.
\<close>

definition swap_neighbours :: "nat \<Rightarrow> 'a list \<Rightarrow> 'a list" where
  "swap_neighbours i rows =
     (if Suc i < length rows then rows[i := rows ! Suc i, Suc i := rows ! i] else rows)"

definition order_by :: "nat list \<Rightarrow> ('a \<Rightarrow> 'k::linorder) \<Rightarrow> 'a list \<Rightarrow> 'a list" where
  "order_by ties key rows = sort_key key (fold swap_neighbours ties rows)"

text \<open>
  The self-join of \<^verbatim>\<open>SCHEDULE\<close> on day, period and faculty with different sections,
  before it is ordered. \<open>where_s1\<close> is the \<^verbatim>\<open>WHERE\<close> clause on \<^verbatim>\<open>s1\<close>, which only
  the per-section detector has.
\<close>

type_synonym schedule_conflict = "int \<times> int \<times> string \<times> string \<times> string"

definition schedule_self_join ::
  "(schedule_row \<Rightarrow> bool) \<Rightarrow> schedule_row list \<Rightarrow> schedule_conflict list" where
  "schedule_self_join where_s1 rows =
     concat (map (\<lambda>s1. map (\<lambda>s2. (sch_DAYID s1, sch_PERIODID s1, sch_FINI s1,
                                     sch_SECTION s1, sch_SECTION s2))
                          (filter (\<lambda>s2. sch_DAYID s1 = sch_DAYID s2
                                        \<and> sch_PERIODID s1 = sch_PERIODID s2
                                        \<and> sch_FINI s1 = sch_FINI s2
                                        \<and> sch_SECTION s1 \<noteq> sch_SECTION s2) rows))
                 (filter where_s1 rows))"

text \<open>
  The inner loop over \<^verbatim>\<open>enumerate(load_classes_from_db())\<close> that adds the cells of
  one conflict.
\<close>

type_synonym conflict_cell = "nat \<times> int \<times> int"

fun add_conflict_cells ::
  "nat \<Rightarrow> string list \<Rightarrow> schedule_conflict \<Rightarrow> conflict_cell set \<Rightarrow> conflict_cell set" where
  "add_conflict_cells class_idx [] conflict conflict_cells = conflict_cells"
| "add_conflict_cells class_idx (class_name # rest) conflict conflict_cells =
     (case conflict of (day_id, period_id, fini, section1, section2) \<Rightarrow>
        add_conflict_cells (class_idx + 1) rest conflict
          (if class_name = section1 \<or> class_name = section2
           then insert (class_idx, day_id, period_id) conflict_cells else conflict_cells))"

fun process_conflicts ::
  "db option \<Rightarrow> schedule_conflict list \<Rightarrow> schedule_conflict list \<times> conflict_cell set
     \<Rightarrow> schedule_conflict list \<times> conflict_cell set" where
  "process_conflicts store [] acc = acc"
| "process_conflicts store (conflict # rest) (conflicts, conflict_cells) =
     process_conflicts store rest
       (conflicts @ [conflict],
        add_conflict_cells 0 (load_classes_from_db store) conflict conflict_cells)"

text \<open>
  The function reads \<^verbatim>\<open>SCHEDULE\<close> and nothing else, ordered by
  \<^verbatim>\<open>s1.DAYID, s1.PERIODID, s1.FINI\<close>. A missing file or a failing query returns the
  empty results.
\<close>

definition check_faculty_conflicts ::
  "nat list \<Rightarrow> db option \<Rightarrow> schedule_conflict list \<times> conflict_cell set" where
  "check_faculty_conflicts ties store =
     (case store of
        None \<Rightarrow> ([], {})
      | Some d \<Rightarrow>
          (case SCHEDULE d of
             None \<Rightarrow> ([], {})
           | Some rows \<Rightarrow>
               (let conflicts_schedule =
                      order_by ties (\<lambda>(day_id, period_id, fini, section1, section2).
                                       (day_id, period_id, fini))
                        (schedule_self_join (\<lambda>s1. True) rows)
                in process_conflicts store conflicts_schedule ([], {}))))"

subsection \<open>The per-section detector: \<^verbatim>\<open>TimetableApp._check_faculty_conflicts\<close>\<close>

text \<open>\<^verbatim>\<open>DAY_MAP.get(day_id, f"Day{day_id}")\<close> of \<^verbatim>\<open>temp_timetable.py\<close>\<close>

definition DAY_MAP :: "int \<Rightarrow> string" where
  "DAY_MAP day_id =
     (if 0 \<le> day_id \<and> day_id < 6 then DEFAULT_DAYS ! nat day_id else ''Day'' @ str_int day_id)"

text \<open>
  The second query: the self-join of \<^verbatim>\<open>SCHEDULED_LESSONS\<close> on day, period and teacher
  id, joined with \<^verbatim>\<open>FACULTY\<close> for the initials. A NULL teacher id equals nothing.
\<close>

type_synonym section_conflict = "string \<times> int \<times> string option \<times> string \<times> string"

definition lessons_self_join ::
  "string \<Rightarrow> lesson_row list \<Rightarrow> faculty_row list \<Rightarrow> section_conflict list" where
  "lessons_self_join section lessons faculty =
     concat (map (\<lambda>sl1.
        concat (map (\<lambda>sl2.
           map (\<lambda>f. (sl_DAY_OF_WEEK sl1, sl_PERIOD_NUMBER sl1, f_INI f,
                      sl_CLASS_NAME sl1, sl_CLASS_NAME sl2))
               (filter (\<lambda>f. sl_TEACHER_ID sl1 = Some (f_FID f)) faculty))
          (filter (\<lambda>sl2. sl_DAY_OF_WEEK sl1 = sl_DAY_OF_WEEK sl2
                         \<and> sl_PERIOD_NUMBER sl1 = sl_PERIOD_NUMBER sl2
                         \<and> sl_TEACHER_ID sl1 \<noteq> None
                         \<and> sl_TEACHER_ID sl1 = sl_TEACHER_ID sl2
                         \<and> sl_CLASS_NAME sl1 \<noteq> sl_CLASS_NAME sl2) lessons)))
       (filter (\<lambda>sl1. sl_CLASS_NAME sl1 = section) lessons))"

text \<open>
  Both scans, the \<^verbatim>\<open>SCHEDULE\<close> one first, its rows converted to day codes and 1-based
  periods. Each query has its own order of ties. An \<^verbatim>\<open>sqlite3.Error\<close> in either query
  returns the empty list.
\<close>

definition TimetableApp_check_faculty_conflicts ::
  "nat list \<Rightarrow> nat list \<Rightarrow> db \<Rightarrow> string \<Rightarrow> section_conflict list" where
  "TimetableApp_check_faculty_conflicts ties ties2 d section =
     (case SCHEDULE d of
        None \<Rightarrow> []
      | Some rows \<Rightarrow>
          (let conflicts_schedule =
                 order_by ties
                   (\<lambda>(day_id, period_id, fini, section1, section2). (day_id, period_id))
                   (schedule_self_join (\<lambda>s1. sch_SECTION s1 = section) rows);
               conflicts =
                 map (\<lambda>(day_id, period_id, fini, section1, section2).
                        (DAY_MAP day_id, period_id + 1, Some fini, section1, section2))
                   conflicts_schedule
           in case (SCHEDULED_LESSONS d, FACULTY d) of
                (Some lessons, Some faculty) \<Rightarrow>
                   conflicts @
                   order_by ties2 (\<lambda>(day, period, ini, class1, class2). (day, period))
                     (lessons_self_join section lessons faculty)
              | _ \<Rightarrow> []))"

section \<open>The loader: \<^verbatim>\<open>load_timetable_data\<close>\<close>

text \<open>
  A grid cell holds either the empty dict \<^verbatim>\<open>{}\<close> (\<open>None\<close>) or the six-key dict the
  loader writes. The grid is the nested dict \<^verbatim>\<open>timetable_data[class_name][day]\<close> of
  lists of cells.
\<close>

record lesson =
  subject :: string
  teacher :: "string option"
  full_name :: "string option"
  subcode :: "string option"
  color :: "string option"
  lesson_type :: "string option"

type_synonym cell = "lesson option"

type_synonym grid = "string \<rightharpoonup> (string \<rightharpoonup> cell list)"

datatype py_error = KeyError | IndexError | OperationalError

text \<open>
  \<^verbatim>\<open>timetable_data[class_name][day_name][i] = v\<close> and the read of the same place. A
  negative index counts from the end of the list; an index outside the list raises
  \<^verbatim>\<open>IndexError\<close>.
\<close>

definition py_index :: "'a list \<Rightarrow> int \<Rightarrow> nat option" where
  "py_index xs i =
     (if 0 \<le> i \<and> i < int (length xs) then Some (nat i)
      else if - int (length xs) \<le> i \<and> i < 0 then Some (nat (int (length xs) + i))
      else None)"

definition set_cell :: "grid \<Rightarrow> string \<Rightarrow> string \<Rightarrow> int \<Rightarrow> cell \<Rightarrow> py_error + grid" where
  "set_cell timetable_data class_name day_name i v =
     (case timetable_data class_name of
        None \<Rightarrow> Inl KeyError
      | Some class_data \<Rightarrow>
          (case class_data day_name of
             None \<Rightarrow> Inl KeyError
           | Some day_data \<Rightarrow>
               (case py_index day_data i of
                  None \<Rightarrow> Inl IndexError
                | Some j \<Rightarrow>
                    Inr (timetable_data(class_name \<mapsto>
                           class_data(day_name \<mapsto> day_data[j := v]))))))"

definition get_cell :: "grid \<Rightarrow> string \<Rightarrow> string \<Rightarrow> int \<Rightarrow> py_error + cell" where
  "get_cell timetable_data class_name day_name i =
     (case timetable_data class_name of
        None \<Rightarrow> Inl KeyError
      | Some class_data \<Rightarrow>
          (case class_data day_name of
             None \<Rightarrow> Inl KeyError
           | Some day_data \<Rightarrow>
               (case py_index day_data i of
                  None \<Rightarrow> Inl IndexError
                | Some j \<Rightarrow> Inr (day_data ! j))))"

text \<open>
  The initialisation: \<^verbatim>\<open>[{} for _ in range(periods_per_day)]\<close> for every day of
  every class.
\<close>

definition init_grid :: "string list \<Rightarrow> string list \<Rightarrow> int \<Rightarrow> grid" where
  "init_grid class_names days periods_per_day =
     fold (\<lambda>class_name timetable_data.
             timetable_data(class_name \<mapsto>
               fold (\<lambda>day class_data. class_data(day \<mapsto> replicate (nat periods_per_day) None))
                 days Map.empty))
       class_names Map.empty"

text \<open>
  \<^verbatim>\<open>load_subject_colors\<close>: the rows of \<^verbatim>\<open>SUBJECTS\<close> whose code and colour are both
  non-empty, later rows overwriting earlier ones. Without the file or the table the dict
  is empty.
\<close>

definition load_subject_colors :: "db option \<Rightarrow> (string \<rightharpoonup> string)" where
  "load_subject_colors store =
     (case store of
        None \<Rightarrow> Map.empty
      | Some d \<Rightarrow>
          (case SUBJECTS d of
             None \<Rightarrow> Map.empty
           | Some rows \<Rightarrow>
               fold (\<lambda>row subject_colors.
                       if s_SUBCODE row \<noteq> [] \<and> truthy (s_COLOR row)
                       then subject_colors(s_SUBCODE row \<mapsto> the (s_COLOR row))
                       else subject_colors)
                 rows Map.empty))"

text \<open>
  The \<^verbatim>\<open>LESSONS\<close> query of one class. Its \<^verbatim>\<open>sqlite3.Error\<close> is caught on the spot
  and leaves the dict empty.
\<close>

definition fetch_lesson_types :: "db \<Rightarrow> string \<Rightarrow> (string option \<rightharpoonup> string option)" where
  "fetch_lesson_types d class_name =
     (case LESSONS d of
        None \<Rightarrow> Map.empty
      | Some rows \<Rightarrow>
          fold (\<lambda>row lesson_types. lesson_types(l_SUBJECT_CODE row \<mapsto> l_LESSON_TYPE row))
            (filter (\<lambda>row. l_CLASS_NAME row = class_name) rows) Map.empty)"

text \<open>
  A row of either schedule query: day, period, \<^verbatim>\<open>s.SUBNAME\<close>, the faculty initials,
  \<^verbatim>\<open>s.SUBCODE\<close> and \<^verbatim>\<open>s.COLOR\<close>. The three subject columns come from the
  \<^verbatim>\<open>LEFT JOIN\<close> with \<^verbatim>\<open>SUBJECTS\<close> and are all NULL when no subject row matches.
\<close>

type_synonym 'd entry = "'d \<times> int \<times> string option \<times> string option \<times> string option \<times> string option"

definition left_join_subjects ::
  "subject_row list \<Rightarrow> string option \<Rightarrow> (string option \<times> string option \<times> string option) list" where
  "left_join_subjects subjects code =
     (case filter (\<lambda>s. code = Some (s_SUBCODE s)) subjects of
        [] \<Rightarrow> [(None, None, None)]
      | matches \<Rightarrow> map (\<lambda>s. (Some (s_SUBNAME s), Some (s_SUBCODE s), s_COLOR s)) matches)"

definition left_join_faculty :: "faculty_row list \<Rightarrow> string option \<Rightarrow> string option list" where
  "left_join_faculty faculty teacher_id =
     (case filter (\<lambda>f. teacher_id = Some (f_FID f)) faculty of
        [] \<Rightarrow> [None]
      | matches \<Rightarrow> map f_INI matches)"

text \<open>
  The \<^verbatim>\<open>SCHEDULE\<close> query of one class: the rows of the class in table order, each with
  its subject, found by the subject code. The result is ordered by day and period; rows
  with equal day and period stay in the order of the scan, as SQLite's sorter leaves them.
  The query raises when one of its tables is missing.
\<close>

definition schedule_join :: "schedule_row list \<Rightarrow> subject_row list \<Rightarrow> string \<Rightarrow> int entry list" where
  "schedule_join rows subjects class_name =
     concat (map (\<lambda>sch.
        map (\<lambda>(subname, subcode, color).
               (sch_DAYID sch, sch_PERIODID sch, subname, Some (sch_FINI sch), subcode, color))
            (left_join_subjects subjects (Some (sch_SUBCODE sch))))
       (filter (\<lambda>sch. sch_SECTION sch = class_name) rows))"

definition select_schedule_entries :: "db \<Rightarrow> string \<Rightarrow> py_error + int entry list" where
  "select_schedule_entries d class_name =
     (case (SCHEDULE d, SUBJECTS d) of
        (Some rows, Some subjects) \<Rightarrow>
           Inr (sort_key (\<lambda>(day_id, period_id, rest). (day_id, period_id))
                  (schedule_join rows subjects class_name))
      | _ \<Rightarrow> Inl OperationalError)"

definition select_lesson_entries :: "db \<Rightarrow> string \<Rightarrow> py_error + string entry list" where
  "select_lesson_entries d class_name =
     (case (SCHEDULED_LESSONS d, SUBJECTS d, FACULTY d) of
        (Some rows, Some subjects, Some faculty) \<Rightarrow>
           Inr (sort_key (\<lambda>(day_code, period_num, rest). (day_code, period_num))
                  (concat (map (\<lambda>sl.
                     concat (map (\<lambda>(subname, subcode, color).
                        map (\<lambda>ini. (sl_DAY_OF_WEEK sl, sl_PERIOD_NUMBER sl, subname, ini,
                                     subcode, color))
                            (left_join_faculty faculty (sl_TEACHER_ID sl)))
                       (left_join_subjects subjects (sl_SUBJECT_CODE sl))))
                     (filter (\<lambda>sl. sl_CLASS_NAME sl = class_name) rows))))
      | _ \<Rightarrow> Inl OperationalError)"

text \<open>The two \<^verbatim>\<open>day_map\<close> dictionaries of the loader, with their \<^verbatim>\<open>.get\<close> defaults.\<close>

definition day_names :: "string list" where
  "day_names = [''Monday'', ''Tuesday'', ''Wednesday'', ''Thursday'', ''Friday'',
                ''Saturday'', ''Sunday'']"

definition day_name_of_id :: "int \<Rightarrow> string" where
  "day_name_of_id day_id =
     (if 0 \<le> day_id \<and> day_id < 7 then day_names ! nat day_id else ''Day'' @ str_int day_id)"

definition day_name_of_code :: "string \<Rightarrow> string" where
  "day_name_of_code day_code =
     (case map_of (zip day_codes day_names) day_code of
        None \<Rightarrow> day_code
      | Some day_name \<Rightarrow> day_name)"

text \<open>The dict written into a cell, from the columns of one row.\<close>

definition make_lesson ::
  "(string \<rightharpoonup> string) \<Rightarrow> (string option \<rightharpoonup> string option) \<Rightarrow> string option \<Rightarrow> string option
     \<Rightarrow> string option \<Rightarrow> string option \<Rightarrow> lesson" where
  "make_lesson subject_colors lesson_types subject_name faculty_ini subject_code entry_color =
     (let color = (if truthy entry_color then entry_color
                   else (case subject_code of
                           None \<Rightarrow> None
                         | Some code \<Rightarrow> subject_colors code));
          subject_code_display =
            (if truthy subject_code then take 2 (the subject_code)
             else if truthy subject_name then take 2 (the subject_name) else []);
          lesson_type = (case lesson_types subject_code of
                           None \<Rightarrow> Some ''Single''
                         | Some t \<Rightarrow> t)
      in \<lparr>subject = subject_code_display, teacher = faculty_ini, full_name = subject_name,
          subcode = subject_code, color = color, lesson_type = lesson_type\<rparr>)"

text \<open>
  One row of the \<^verbatim>\<open>SCHEDULE\<close> pass. The row is skipped when its day is not displayed
  or \<^verbatim>\<open>period_id >= periods_per_day\<close>; otherwise the cell is overwritten.
\<close>

definition process_schedule_entry ::
  "(string \<rightharpoonup> string) \<Rightarrow> (string option \<rightharpoonup> string option) \<Rightarrow> string list \<Rightarrow> int \<Rightarrow> string
     \<Rightarrow> int entry \<Rightarrow> grid \<Rightarrow> py_error + grid" where
  "process_schedule_entry subject_colors lesson_types days periods_per_day class_name e
       timetable_data =
     (case e of (day_id, period_id, subject_name, faculty_ini, subject_code, entry_color) \<Rightarrow>
        (let day_name = day_name_of_id day_id
         in if day_name \<notin> set days \<or> period_id \<ge> periods_per_day then Inr timetable_data
            else set_cell timetable_data class_name day_name period_id
                   (Some (make_lesson subject_colors lesson_types subject_name faculty_ini
                            subject_code entry_color))))"

text \<open>
  One row of the \<^verbatim>\<open>SCHEDULED_LESSONS\<close> pass. The period is converted to 0-based, rows
  outside the grid on either side are skipped, and the cell is written only when
  \<^verbatim>\<open>.get("subject")\<close> of its present content is empty or missing.
\<close>

definition process_lesson_entry ::
  "(string \<rightharpoonup> string) \<Rightarrow> (string option \<rightharpoonup> string option) \<Rightarrow> string list \<Rightarrow> int \<Rightarrow> string
     \<Rightarrow> string entry \<Rightarrow> grid \<Rightarrow> py_error + grid" where
  "process_lesson_entry subject_colors lesson_types days periods_per_day class_name e
       timetable_data =
     (case e of (day_code, period_num, subject_name, faculty_ini, subject_code, entry_color) \<Rightarrow>
        (let day_name = day_name_of_code day_code;
             period_idx = period_num - 1
         in if day_name \<notin> set days \<or> period_idx \<ge> periods_per_day \<or> period_idx < 0
            then Inr timetable_data
            else (case get_cell timetable_data class_name day_name period_idx of
                    Inl err \<Rightarrow> Inl err
                  | Inr old \<Rightarrow>
                      if (case old of None \<Rightarrow> True | Some l \<Rightarrow> subject l = [])
                      then set_cell timetable_data class_name day_name period_idx
                             (Some (make_lesson subject_colors lesson_types subject_name
                                      faculty_ini subject_code entry_color))
                      else Inr timetable_data)))"

text \<open>
  A \<^verbatim>\<open>for\<close> loop whose body may raise: the exception leaves the loop, and the grid keeps
  what was written before it.
\<close>

fun run_loop :: "('a \<Rightarrow> grid \<Rightarrow> py_error + grid) \<Rightarrow> 'a list \<Rightarrow> grid \<Rightarrow> py_error option \<times> grid" where
  "run_loop body [] timetable_data = (None, timetable_data)"
| "run_loop body (x # xs) timetable_data =
     (case body x timetable_data of
        Inl err \<Rightarrow> (Some err, timetable_data)
      | Inr timetable_data' \<Rightarrow> run_loop body xs timetable_data')"

text \<open>
  The two passes over \<^verbatim>\<open>class_names\<close>. Each returns the exception that ended it, if
  any, and the grid at that moment.
\<close>

fun load_from_SCHEDULE ::
  "db \<Rightarrow> (string \<rightharpoonup> string) \<Rightarrow> string list \<Rightarrow> int \<Rightarrow> string list \<Rightarrow> grid
     \<Rightarrow> py_error option \<times> grid" where
  "load_from_SCHEDULE d subject_colors days periods_per_day [] timetable_data =
     (None, timetable_data)"
| "load_from_SCHEDULE d subject_colors days periods_per_day (class_name # rest) timetable_data =
     (let lesson_types = fetch_lesson_types d class_name
      in case select_schedule_entries d class_name of
           Inl err \<Rightarrow> (Some err, timetable_data)
         | Inr schedule_entries \<Rightarrow>
             (case run_loop (process_schedule_entry subject_colors lesson_types days
                               periods_per_day class_name) schedule_entries timetable_data of
                (Some err, timetable_data') \<Rightarrow> (Some err, timetable_data')
              | (None, timetable_data') \<Rightarrow>
                  load_from_SCHEDULE d subject_colors days periods_per_day rest timetable_data'))"

fun load_from_SCHEDULED_LESSONS ::
  "db \<Rightarrow> (string \<rightharpoonup> string) \<Rightarrow> string list \<Rightarrow> int \<Rightarrow> string list \<Rightarrow> grid
     \<Rightarrow> py_error option \<times> grid" where
  "load_from_SCHEDULED_LESSONS d subject_colors days periods_per_day [] timetable_data =
     (None, timetable_data)"
| "load_from_SCHEDULED_LESSONS d subject_colors days periods_per_day (class_name # rest)
       timetable_data =
     (let lesson_types = fetch_lesson_types d class_name
      in case select_lesson_entries d class_name of
           Inl err \<Rightarrow> (Some err, timetable_data)
         | Inr schedule_entries \<Rightarrow>
             (case run_loop (process_lesson_entry subject_colors lesson_types days
                               periods_per_day class_name) schedule_entries timetable_data of
                (Some err, timetable_data') \<Rightarrow> (Some err, timetable_data')
              | (None, timetable_data') \<Rightarrow>
                  load_from_SCHEDULED_LESSONS d subject_colors days periods_per_day rest
                    timetable_data'))"

text \<open>
  The grid after the \<^verbatim>\<open>SCHEDULE\<close> pass, whose exceptions are caught and dropped, and
  the whole function: the \<^verbatim>\<open>SCHEDULED_LESSONS\<close> pass runs on that grid, and an exception
  in it ends the function with the grid as it is. Without the database file the result is
  the empty dict.
\<close>

definition after_SCHEDULE_pass :: "string list \<Rightarrow> string list \<Rightarrow> int \<Rightarrow> db \<Rightarrow> grid" where
  "after_SCHEDULE_pass class_names days periods_per_day d =
     snd (load_from_SCHEDULE d (load_subject_colors (Some d)) days periods_per_day class_names
            (init_grid class_names days periods_per_day))"

definition load_timetable_data :: "string list \<Rightarrow> string list \<Rightarrow> int \<Rightarrow> db option \<Rightarrow> grid" where
  "load_timetable_data class_names days periods_per_day store =
     (case store of
        None \<Rightarrow> Map.empty
      | Some d \<Rightarrow>
          snd (load_from_SCHEDULED_LESSONS d (load_subject_colors (Some d)) days periods_per_day
                 class_names (after_SCHEDULE_pass class_names days periods_per_day d)))"

section \<open>The span projection: the cell loop of \<^verbatim>\<open>TimetableDisplayComponent.load_data\<close>\<close>

text \<open>
  \<^verbatim>\<open>self.timetable_cells\<close> has a frame for every index triple inside the three header
  lists (\<^verbatim>\<open>create_timetable_grid_cells\<close>).
\<close>

definition in_timetable_cells :: "string list \<Rightarrow> string list \<Rightarrow> string list \<Rightarrow> cell_key \<Rightarrow> bool" where
  "in_timetable_cells class_names days periods cell_key =
     (case cell_key of (class_idx, day_idx, period_idx) \<Rightarrow>
        class_idx < length class_names \<and> day_idx < length days \<and> period_idx < length periods)"

text \<open>
  The \<^verbatim>\<open>colspan\<close> of a cell and the follow-on cells it adds to
  \<^verbatim>\<open>processed_cells\<close>. The comparisons are Python's, on integers.
\<close>

definition colspan_of :: "string list \<Rightarrow> nat \<Rightarrow> string option \<Rightarrow> nat" where
  "colspan_of periods period_idx ltype =
     (if ltype = Some ''Double'' \<and> int period_idx < int (length periods) - 1 then 2
      else if ltype = Some ''Triple'' \<and> int period_idx < int (length periods) - 2 then 3
      else 1)"

definition mark_next :: "cell_key \<Rightarrow> nat \<Rightarrow> cell_key set \<Rightarrow> cell_key set" where
  "mark_next cell_key colspan processed_cells =
     (case cell_key of (class_idx, day_idx, period_idx) \<Rightarrow>
        (if colspan = 2 then insert (class_idx, day_idx, period_idx + 1) processed_cells
         else if colspan = 3 then
           insert (class_idx, day_idx, period_idx + 2)
             (insert (class_idx, day_idx, period_idx + 1) processed_cells)
         else processed_cells))"

text \<open>
  Where a frame is gridded. Before the cell loop, the re-grid loop runs over every class,
  day and period index, assigns \<^verbatim>\<open>row = 2 + class_idx\<close> and grids each frame at its own
  row and column, one column wide. The cell loop computes \<^verbatim>\<open>col\<close> but never assigns
  \<^verbatim>\<open>row\<close>: where it grids a merged frame with
  \<^verbatim>\<open>cell_frame.grid(row=row, column=col, columnspan=colspan)\<close>, \<^verbatim>\<open>row\<close> still holds
  the value of the last pass of the re-grid loop, the row of the last class. A frame that
  is not merged stays where the re-grid loop put it. (A frame exists only when there is
  at least one class, so the difference below is exact.)
\<close>

type_synonym placement = "nat \<times> nat \<times> nat"

definition stale_row :: "string list \<Rightarrow> nat" where
  "stale_row class_names = 2 + (length class_names - 1)"

definition frame_placement :: "string list \<Rightarrow> string list \<Rightarrow> cell_key \<Rightarrow> nat \<Rightarrow> placement" where
  "frame_placement class_names periods cell_key colspan =
     (case cell_key of (class_idx, day_idx, period_idx) \<Rightarrow>
        (let col = 1 + (day_idx * length periods) + period_idx
         in if colspan > 1 then (stale_row class_names, col, colspan)
            else (2 + class_idx, col, 1)))"

text \<open>
  A rendered cell: its key, the row, column and column span of its frame, and the lesson
  shown. The scan returns the cells rendered, in order, and the final
  \<^verbatim>\<open>processed_cells\<close>.
\<close>

type_synonym rendered = "cell_key \<times> placement \<times> lesson"

text \<open>\<^verbatim>\<open>for period_idx, period_data in enumerate(day_data)\<close>\<close>

fun scan_periods ::
  "string list \<Rightarrow> string list \<Rightarrow> string list \<Rightarrow> nat \<Rightarrow> nat \<Rightarrow> nat \<Rightarrow> cell list \<Rightarrow> cell_key set
     \<Rightarrow> rendered list \<times> cell_key set" where
  "scan_periods class_names days periods class_idx day_idx period_idx [] processed_cells =
     ([], processed_cells)"
| "scan_periods class_names days periods class_idx day_idx period_idx (period_data # rest)
       processed_cells =
     (case period_data of
        None \<Rightarrow>
          scan_periods class_names days periods class_idx day_idx (period_idx + 1) rest
            processed_cells
      | Some l \<Rightarrow>
          (let cell_key = (class_idx, day_idx, period_idx)
           in if period_idx < length periods \<and> cell_key \<notin> processed_cells
                 \<and> in_timetable_cells class_names days periods cell_key
              then
                (let colspan = colspan_of periods period_idx (lesson_type l);
                     processed_cells = insert cell_key (mark_next cell_key colspan processed_cells)
                 in case scan_periods class_names days periods class_idx day_idx
                           (period_idx + 1) rest processed_cells of
                      (cells, processed_cells) \<Rightarrow>
                        ((cell_key, frame_placement class_names periods cell_key colspan, l)
                           # cells,
                         processed_cells))
              else scan_periods class_names days periods class_idx day_idx (period_idx + 1) rest
                     processed_cells))"

text \<open>\<^verbatim>\<open>for day_idx, day in enumerate(self.days): if day in class_data: ...\<close>\<close>

fun scan_days ::
  "string list \<Rightarrow> string list \<Rightarrow> string list \<Rightarrow> (string \<rightharpoonup> cell list) \<Rightarrow> nat \<Rightarrow> nat
     \<Rightarrow> string list \<Rightarrow> cell_key set \<Rightarrow> rendered list \<times> cell_key set" where
  "scan_days class_names days periods class_data class_idx day_idx [] processed_cells =
     ([], processed_cells)"
| "scan_days class_names days periods class_data class_idx day_idx (day # rest) processed_cells =
     (case class_data day of
        None \<Rightarrow>
          scan_days class_names days periods class_data class_idx (day_idx + 1) rest
            processed_cells
      | Some day_data \<Rightarrow>
          (case scan_periods class_names days periods class_idx day_idx 0 day_data
                  processed_cells of
             (cells, processed_cells) \<Rightarrow>
               (case scan_days class_names days periods class_data class_idx (day_idx + 1) rest
                       processed_cells of
                  (cells', processed_cells) \<Rightarrow> (cells @ cells', processed_cells))))"

text \<open>\<^verbatim>\<open>for class_idx, class_name in enumerate(self.class_names): if class_name in timetable_data: ...\<close>\<close>

fun scan_classes ::
  "string list \<Rightarrow> string list \<Rightarrow> string list \<Rightarrow> grid \<Rightarrow> nat \<Rightarrow> string list \<Rightarrow> cell_key set
     \<Rightarrow> rendered list \<times> cell_key set" where
  "scan_classes class_names days periods timetable_data class_idx [] processed_cells =
     ([], processed_cells)"
| "scan_classes class_names days periods timetable_data class_idx (class_name # rest)
       processed_cells =
     (case timetable_data class_name of
        None \<Rightarrow>
          scan_classes class_names days periods timetable_data (class_idx + 1) rest
            processed_cells
      | Some class_data \<Rightarrow>
          (case scan_days class_names days periods class_data class_idx 0 days processed_cells of
             (cells, processed_cells) \<Rightarrow>
               (case scan_classes class_names days periods timetable_data (class_idx + 1) rest
                       processed_cells of
                  (cells', processed_cells) \<Rightarrow> (cells @ cells', processed_cells))))"

definition load_data ::
  "string list \<Rightarrow> string list \<Rightarrow> string list \<Rightarrow> grid \<Rightarrow> rendered list \<times> cell_key set" where
  "load_data class_names days periods timetable_data =
     scan_classes class_names days periods timetable_data 0 class_names {}"

section \<open>The display text of \<^verbatim>\<open>TimetableApp._load_and_display_timetable\<close>\<close>

text \<open>
  The text put into a cell for one \<^verbatim>\<open>SCHEDULE\<close> row, from \<^verbatim>\<open>s.SUBNAME\<close>,
  \<^verbatim>\<open>sch.FINI\<close> and \<^verbatim>\<open>s.SUBCODE\<close>. An f-string prints \<^verbatim>\<open>None\<close> as that word.
\<close>

definition py_str :: "string option \<Rightarrow> string" where
  "py_str v = (case v of None \<Rightarrow> ''None'' | Some s \<Rightarrow> s)"

definition lesson_text :: "string option \<Rightarrow> string \<Rightarrow> string option \<Rightarrow> string" where
  "lesson_text sub_name fini sub_code =
     (let subject_display = (if truthy sub_name then sub_name
                             else if sub_code \<noteq> Some ''NULL'' then sub_code else Some ''Free'');
          faculty_display = (if fini \<noteq> ''NULL'' then fini else ''-'')
      in py_str subject_display @ [CHR 0x0A] @ faculty_display)"

section \<open>Notions used to state the properties\<close>

text \<open>The settings table a connection gives access to, if any.\<close>

definition settings_of :: "db option \<Rightarrow> settings_row list option" where
  "settings_of conn = (case conn of None \<Rightarrow> None | Some d \<Rightarrow> TIMETABLE_SETTINGS d)"

text \<open>
  \<^verbatim>\<open>DAYS_ENABLED\<close> is unset or names at least one of the default day codes;
  \<^verbatim>\<open>NUM_PERIODS\<close> is unset, not an integer, or at least 1.
\<close>

definition days_enabled_ok :: "settings_row list \<Rightarrow> bool" where
  "days_enabled_ok rows =
     (case fetch_setting rows ''DAYS_ENABLED'' of
        None \<Rightarrow> True
      | Some v \<Rightarrow> list_ex (\<lambda>day. day \<in> set (split_on CHR '','' v)) DEFAULT_DAYS)"

definition num_periods_ok :: "settings_row list \<Rightarrow> bool" where
  "num_periods_ok rows =
     (case fetch_setting rows ''NUM_PERIODS'' of
        None \<Rightarrow> True
      | Some v \<Rightarrow> (case py_int v of None \<Rightarrow> True | Some n \<Rightarrow> 1 \<le> n))"

text \<open>
  A period setting applies: \<^verbatim>\<open>PERIODS_CONFIG\<close> is set and parses to at least one pair;
  \<^verbatim>\<open>NUM_PERIODS\<close> is set and is an integer.
\<close>

definition periods_config_applies :: "settings_row list \<Rightarrow> bool" where
  "periods_config_applies rows =
     (case fetch_setting rows ''PERIODS_CONFIG'' of
        None \<Rightarrow> False
      | Some v \<Rightarrow>
          (case parse_periods (split_on CHR '','' v) [] of
             None \<Rightarrow> False
           | Some periods_data \<Rightarrow> periods_data \<noteq> []))"

definition num_periods_applies :: "settings_row list \<Rightarrow> bool" where
  "num_periods_applies rows =
     (case fetch_setting rows ''NUM_PERIODS'' of
        None \<Rightarrow> False
      | Some v \<Rightarrow> py_int v \<noteq> None)"

text \<open>
  The lessons the current schema holds for a grid cell: one for each row of the
  \<^verbatim>\<open>SCHEDULE\<close> query of the class whose day name and period are the cell's, in table
  order.
\<close>

definition current_lessons :: "db \<Rightarrow> string \<Rightarrow> string \<Rightarrow> int \<Rightarrow> lesson list" where
  "current_lessons d class_name day_name period =
     (case (SCHEDULE d, SUBJECTS d) of
        (Some rows, Some subjects) \<Rightarrow>
           map (\<lambda>(day_id, period_id, subject_name, faculty_ini, subject_code, entry_color).
                  make_lesson (load_subject_colors (Some d)) (fetch_lesson_types d class_name)
                    subject_name faculty_ini subject_code entry_color)
             (filter (\<lambda>(day_id, period_id, rest).
                        day_name_of_id day_id = day_name \<and> period_id = period)
                (schedule_join rows subjects class_name))
      | _ \<Rightarrow> [])"

text \<open>No \<^verbatim>\<open>SCHEDULE\<close> row of a listed class has a negative period id.\<close>

definition no_negative_periods :: "string list \<Rightarrow> db \<Rightarrow> bool" where
  "no_negative_periods class_names d =
     (case SCHEDULE d of
        None \<Rightarrow> True
      | Some rows \<Rightarrow>
          list_all (\<lambda>r. sch_SECTION r \<in> set class_names \<longrightarrow> 0 \<le> sch_PERIODID r) rows)"

text \<open>
  The shape the initialisation gives the grid: every listed class has every displayed day,
  with one cell for each period.
\<close>

definition grid_shape :: "string list \<Rightarrow> string list \<Rightarrow> int \<Rightarrow> grid \<Rightarrow> bool" where
  "grid_shape class_names days periods_per_day timetable_data =
     (\<forall>class_name \<in> set class_names. \<forall>day_name \<in> set days.
        \<exists>class_data day_data.
          timetable_data class_name = Some class_data \<and> class_data day_name = Some day_data
          \<and> length day_data = nat periods_per_day)"

text \<open>The rows of a swapped cell in either table, and whether the cell has one.\<close>

definition schedule_row_of_cell :: "string list \<Rightarrow> cell_key \<Rightarrow> schedule_row \<Rightarrow> bool" where
  "schedule_row_of_cell class_names cell r =
     (case cell of (class_idx, day_idx, period_idx) \<Rightarrow>
        (case class_name_at class_names class_idx of
           None \<Rightarrow> False
         | Some n \<Rightarrow> schedule_at n (int day_idx) (int period_idx) r))"

definition lesson_row_of_cell :: "string list \<Rightarrow> cell_key \<Rightarrow> lesson_row \<Rightarrow> bool" where
  "lesson_row_of_cell class_names cell r =
     (case cell of (class_idx, day_idx, period_idx) \<Rightarrow>
        (case (class_name_at class_names class_idx, day_code_at day_idx) of
           (Some n, Some c) \<Rightarrow> lesson_at n c (int period_idx + 1) r
         | _ \<Rightarrow> False))"

definition cell_has_schedule_row :: "string list \<Rightarrow> cell_key \<Rightarrow> db \<Rightarrow> bool" where
  "cell_has_schedule_row class_names cell d =
     (case SCHEDULE d of
        None \<Rightarrow> False
      | Some rows \<Rightarrow> list_ex (schedule_row_of_cell class_names cell) rows)"

definition cell_has_lesson_row :: "string list \<Rightarrow> cell_key \<Rightarrow> db \<Rightarrow> bool" where
  "cell_has_lesson_row class_names cell d =
     (case SCHEDULED_LESSONS d of
        None \<Rightarrow> False
      | Some rows \<Rightarrow> list_ex (lesson_row_of_cell class_names cell) rows)"

text \<open>
  All rows stored under one key carry the subject and faculty of the first of them, which
  is the pair \<^verbatim>\<open>fetchone()\<close> reads. It holds in particular when the key has at most one
  row.
\<close>

definition uniform_schedule :: "string \<Rightarrow> int \<Rightarrow> int \<Rightarrow> schedule_row list \<Rightarrow> bool" where
  "uniform_schedule n d p rows \<longleftrightarrow>
     list_all (\<lambda>r. schedule_at n d p r \<longrightarrow>
                 Some (sch_SUBCODE r, sch_FINI r) = select_schedule_one rows n d p) rows"

definition uniform_lessons :: "string \<Rightarrow> string \<Rightarrow> int \<Rightarrow> lesson_row list \<Rightarrow> bool" where
  "uniform_lessons n c p rows \<longleftrightarrow>
     list_all (\<lambda>r. lesson_at n c p r \<longrightarrow>
                 Some (sl_SUBJECT_CODE r, sl_TEACHER_ID r) = select_lesson_one rows n c p) rows"

definition cell_uniform :: "string list \<Rightarrow> cell_key \<Rightarrow> db \<Rightarrow> bool" where
  "cell_uniform class_names cell d =
     (case cell of (class_idx, day_idx, period_idx) \<Rightarrow>
        (case class_name_at class_names class_idx of
           None \<Rightarrow> True
         | Some n \<Rightarrow>
             (case SCHEDULE d of
                None \<Rightarrow> True
              | Some rows \<Rightarrow> uniform_schedule n (int day_idx) (int period_idx) rows) \<and>
             (case (SCHEDULED_LESSONS d, day_code_at day_idx) of
                (Some rows, Some c) \<Rightarrow> uniform_lessons n c (int period_idx + 1) rows
              | _ \<Rightarrow> True)))"

text \<open>
  What an overwrite in place may change: the row keeps its id and its key, and a row that
  belongs to neither swapped cell is the same row.
\<close>

definition schedule_row_frame ::
  "(schedule_row \<Rightarrow> bool) \<Rightarrow> schedule_row \<Rightarrow> schedule_row \<Rightarrow> bool" where
  "schedule_row_frame swapped r r' \<longleftrightarrow>
     sch_ID r' = sch_ID r \<and> sch_SECTION r' = sch_SECTION r \<and> sch_DAYID r' = sch_DAYID r
       \<and> sch_PERIODID r' = sch_PERIODID r \<and> (\<not> swapped r \<longrightarrow> r' = r)"

definition lesson_row_frame :: "(lesson_row \<Rightarrow> bool) \<Rightarrow> lesson_row \<Rightarrow> lesson_row \<Rightarrow> bool" where
  "lesson_row_frame swapped r r' \<longleftrightarrow>
     sl_SCHEDULE_ID r' = sl_SCHEDULE_ID r \<and> sl_CLASS_NAME r' = sl_CLASS_NAME r
       \<and> sl_DAY_OF_WEEK r' = sl_DAY_OF_WEEK r \<and> sl_PERIOD_NUMBER r' = sl_PERIOD_NUMBER r
       \<and> (\<not> swapped r \<longrightarrow> r' = r)"

text \<open>
  The grid slots a rendered frame occupies: its row, and the columns from its column on,
  as many as it spans.
\<close>

definition occupies :: "rendered \<Rightarrow> nat \<times> nat \<Rightarrow> bool" where
  "occupies r slot =
     (case (r, slot) of
        ((cell_key, (row, column, columnspan), l), (row', column')) \<Rightarrow>
          row' = row \<and> column \<le> column' \<and> column' < column + columnspan)"

section \<open>Example stores\<close>

definition empty_db :: db where
  "empty_db = \<lparr>SCHEDULE = Some [], SCHEDULED_LESSONS = Some [], SUBJECTS = Some [],
               FACULTY = Some [], LESSONS = Some [], TIMETABLE_SETTINGS = Some [],
               CLASS = Some []\<rparr>"

definition maths :: subject_row where
  "maths = \<lparr>s_SUBCODE = ''Ma'', s_SUBNAME = ''Maths'', s_COLOR = None\<rparr>"

definition teacher_T1 :: faculty_row where
  "teacher_T1 = \<lparr>f_FID = ''T1'', f_NAME = ''J. Doe'', f_INI = Some ''JD''\<rparr>"

text \<open>Teacher T1 is booked for two classes on Monday, period 1, in the legacy table only.\<close>

definition legacy_conflict_db :: db where
  "legacy_conflict_db = empty_db
     \<lparr>SCHEDULED_LESSONS := Some
        [\<lparr>sl_SCHEDULE_ID = 1, sl_CLASS_NAME = ''CSE'', sl_DAY_OF_WEEK = ''Mo'',
          sl_PERIOD_NUMBER = 1, sl_SUBJECT_CODE = Some ''Ma'', sl_TEACHER_ID = Some ''T1''\<rparr>,
         \<lparr>sl_SCHEDULE_ID = 2, sl_CLASS_NAME = ''ECE'', sl_DAY_OF_WEEK = ''Mo'',
          sl_PERIOD_NUMBER = 1, sl_SUBJECT_CODE = Some ''Ph'', sl_TEACHER_ID = Some ''T1''\<rparr>],
      FACULTY := Some [teacher_T1]\<rparr>"

text \<open>Both period settings are present and well-formed.\<close>

definition periods_and_num_db :: db where
  "periods_and_num_db = empty_db
     \<lparr>TIMETABLE_SETTINGS := Some
        [\<lparr>setting_name = ''PERIODS_CONFIG'', setting_value = Some ''1:8:00-8:45,2:9:00-9:45''\<rparr>,
         \<lparr>setting_name = ''NUM_PERIODS'', setting_value = Some ''4''\<rparr>]\<rparr>"

text \<open>Only Sunday is enabled, and the number of periods is zero.\<close>

definition sunday_zero_db :: db where
  "sunday_zero_db = empty_db
     \<lparr>TIMETABLE_SETTINGS := Some
        [\<lparr>setting_name = ''DAYS_ENABLED'', setting_value = Some ''Su''\<rparr>,
         \<lparr>setting_name = ''NUM_PERIODS'', setting_value = Some ''0''\<rparr>]\<rparr>"

definition three_days_db :: db where
  "three_days_db = empty_db
     \<lparr>TIMETABLE_SETTINGS := Some
        [\<lparr>setting_name = ''DAYS_ENABLED'', setting_value = Some ''Mo,We,Fr''\<rparr>,
         \<lparr>setting_name = ''NUM_PERIODS'', setting_value = Some ''3''\<rparr>]\<rparr>"

text \<open>
  Monday, first period of class CSE: the current table holds subject code XX, which
  \<^verbatim>\<open>SUBJECTS\<close> does not list, and the legacy table holds Maths.
\<close>

definition both_schemas_db :: db where
  "both_schemas_db = empty_db
     \<lparr>SCHEDULE := Some
        [\<lparr>sch_ID = ''1'', sch_DAYID = 0, sch_PERIODID = 0, sch_SUBCODE = ''XX'',
          sch_SECTION = ''CSE'', sch_FINI = ''AB''\<rparr>],
      SCHEDULED_LESSONS := Some
        [\<lparr>sl_SCHEDULE_ID = 1, sl_CLASS_NAME = ''CSE'', sl_DAY_OF_WEEK = ''Mo'',
          sl_PERIOD_NUMBER = 1, sl_SUBJECT_CODE = Some ''Ma'', sl_TEACHER_ID = Some ''T1''\<rparr>],
      SUBJECTS := Some [maths],
      FACULTY := Some [teacher_T1]\<rparr>"

text \<open>The same cell, with a current row whose subject \<^verbatim>\<open>SUBJECTS\<close> lists.\<close>

definition current_wins_db :: db where
  "current_wins_db = empty_db
     \<lparr>SCHEDULE := Some
        [\<lparr>sch_ID = ''1'', sch_DAYID = 0, sch_PERIODID = 0, sch_SUBCODE = ''Ph'',
          sch_SECTION = ''CSE'', sch_FINI = ''AB''\<rparr>],
      SCHEDULED_LESSONS := Some
        [\<lparr>sl_SCHEDULE_ID = 1, sl_CLASS_NAME = ''CSE'', sl_DAY_OF_WEEK = ''Mo'',
          sl_PERIOD_NUMBER = 1, sl_SUBJECT_CODE = Some ''Ma'', sl_TEACHER_ID = Some ''T1''\<rparr>],
      SUBJECTS := Some [maths, \<lparr>s_SUBCODE = ''Ph'', s_SUBNAME = ''Physics'', s_COLOR = None\<rparr>],
      FACULTY := Some [teacher_T1]\<rparr>"

text \<open>A current row with period id -1, and a legacy row with period number 0.\<close>

definition negative_period_db :: db where
  "negative_period_db = empty_db
     \<lparr>SCHEDULE := Some
        [\<lparr>sch_ID = ''1'', sch_DAYID = 0, sch_PERIODID = - 1, sch_SUBCODE = ''Ma'',
          sch_SECTION = ''CSE'', sch_FINI = ''JD''\<rparr>],
      SUBJECTS := Some [maths]\<rparr>"

definition zero_period_legacy_db :: db where
  "zero_period_legacy_db = empty_db
     \<lparr>SCHEDULED_LESSONS := Some
        [\<lparr>sl_SCHEDULE_ID = 1, sl_CLASS_NAME = ''CSE'', sl_DAY_OF_WEEK = ''Mo'',
          sl_PERIOD_NUMBER = 0, sl_SUBJECT_CODE = Some ''Ma'', sl_TEACHER_ID = Some ''T1''\<rparr>],
      SUBJECTS := Some [maths],
      FACULTY := Some [teacher_T1]\<rparr>"

text \<open>An unassigned slot of the current table: both fields hold the string NULL.\<close>

definition null_sentinel_db :: db where
  "null_sentinel_db = empty_db
     \<lparr>SCHEDULE := Some
        [\<lparr>sch_ID = ''1'', sch_DAYID = 0, sch_PERIODID = 0, sch_SUBCODE = ''NULL'',
          sch_SECTION = ''CSE'', sch_FINI = ''NULL''\<rparr>],
      SUBJECTS := Some [maths]\<rparr>"

text \<open>
  Two \<^verbatim>\<open>SCHEDULE\<close> rows stored for the cell (CSE, day 0, period 0) and one for
  (ECE, day 0, period 1).
\<close>

definition cse_row_1 :: schedule_row where
  "cse_row_1 = \<lparr>sch_ID = ''1'', sch_DAYID = 0, sch_PERIODID = 0, sch_SUBCODE = ''Ma'',
                sch_SECTION = ''CSE'', sch_FINI = ''JD''\<rparr>"

definition cse_row_2 :: schedule_row where
  "cse_row_2 = \<lparr>sch_ID = ''2'', sch_DAYID = 0, sch_PERIODID = 0, sch_SUBCODE = ''Ph'',
                sch_SECTION = ''CSE'', sch_FINI = ''XY''\<rparr>"

definition ece_row :: schedule_row where
  "ece_row = \<lparr>sch_ID = ''3'', sch_DAYID = 0, sch_PERIODID = 1, sch_SUBCODE = ''Ch'',
              sch_SECTION = ''ECE'', sch_FINI = ''ZZ''\<rparr>"

definition duplicate_rows_db :: db where
  "duplicate_rows_db = empty_db\<lparr>SCHEDULE := Some [cse_row_1, cse_row_2, ece_row]\<rparr>"

text \<open>
  One row per cell in the current table for both cells; in the legacy table only the CSE
  cell has a row.
\<close>

definition cse_lesson :: lesson_row where
  "cse_lesson = \<lparr>sl_SCHEDULE_ID = 1, sl_CLASS_NAME = ''CSE'', sl_DAY_OF_WEEK = ''Mo'',
                 sl_PERIOD_NUMBER = 1, sl_SUBJECT_CODE = Some ''Ma'', sl_TEACHER_ID = Some ''T1''\<rparr>"

definition partial_swap_db :: db where
  "partial_swap_db = empty_db
     \<lparr>SCHEDULE := Some [cse_row_1, ece_row], SCHEDULED_LESSONS := Some [cse_lesson]\<rparr>"

text \<open>Only the CSE cell has a row, in both tables.\<close>

definition one_sided_db :: db where
  "one_sided_db = empty_db
     \<lparr>SCHEDULE := Some [cse_row_1], SCHEDULED_LESSONS := Some [cse_lesson]\<rparr>"

text \<open>
  Two classes on one day of six periods: CSE has a double lesson at period 0, ECE a single
  lesson at period 0.
\<close>

definition lesson_of_type :: "string \<Rightarrow> lesson" where
  "lesson_of_type t = \<lparr>subject = ''Ma'', teacher = Some ''JD'', full_name = Some ''Maths'',
                        subcode = Some ''Ma'', color = None, lesson_type = Some t\<rparr>"

definition six_periods :: "string list" where
  "six_periods = [''P1'', ''P2'', ''P3'', ''P4'', ''P5'', ''P6'']"

definition two_class_grid :: grid where
  "two_class_grid =
     [''CSE'' \<mapsto> [''Monday'' \<mapsto>
        [Some (lesson_of_type ''Double''), None, None, None, None, None]],
      ''ECE'' \<mapsto> [''Monday'' \<mapsto>
        [Some (lesson_of_type ''Single''), None, None, None, None, None]]]"

text \<open>A settings table with two values that do not parse.\<close>

definition malformed_settings_db :: db where
  "malformed_settings_db = empty_db
     \<lparr>TIMETABLE_SETTINGS := Some
        [\<lparr>setting_name = ''PERIODS_CONFIG'', setting_value = Some ''x:8:00-8:45''\<rparr>,
         \<lparr>setting_name = ''NUM_PERIODS'', setting_value = Some ''six''\<rparr>]\<rparr>"

section \<open>Properties\<close>

subsection \<open>The cell swap\<close>

lemma find_map_keep:
  assumes "\<And>r. P (f r) = P r"
  shows "find P (map f rows) = map_option f (find P rows)"
  using assms by (induction rows) auto

lemma schedule_at_update [simp]:
  "schedule_at n d p (r\<lparr>sch_SUBCODE := a, sch_FINI := b\<rparr>) = schedule_at n d p r"
  by (simp add: schedule_at_def)

lemma lesson_at_update [simp]:
  "lesson_at n c p (r\<lparr>sl_SUBJECT_CODE := a, sl_TEACHER_ID := b\<rparr>) = lesson_at n c p r"
  by (simp add: lesson_at_def)

lemma find_update_schedule:
  "find (schedule_at n' d' p') (update_schedule v n d p rows) =
     map_option (\<lambda>r. if schedule_at n d p r then r\<lparr>sch_SUBCODE := fst v, sch_FINI := snd v\<rparr> else r)
       (find (schedule_at n' d' p') rows)"
  unfolding update_schedule_def by (rule find_map_keep) simp

lemma find_update_lessons:
  "find (lesson_at n' c' p') (update_lessons v n c p rows) =
     map_option (\<lambda>r. if lesson_at n c p r
                      then r\<lparr>sl_SUBJECT_CODE := fst v, sl_TEACHER_ID := snd v\<rparr> else r)
       (find (lesson_at n' c' p') rows)"
  unfolding update_lessons_def by (rule find_map_keep) simp

text \<open>Without a row for one of the two keys the table is returned as it is.\<close>

lemma swap_schedule_noop:
  assumes "\<not> list_ex (schedule_at n1 (int d1) (int p1)) rows
             \<or> \<not> list_ex (schedule_at n2 (int d2) (int p2)) rows"
  shows "swap_schedule n1 d1 p1 n2 d2 p2 rows = rows"
proof -
  from assms have "find (schedule_at n1 (int d1) (int p1)) rows = None
                     \<or> find (schedule_at n2 (int d2) (int p2)) rows = None"
    by (auto simp: find_None_iff list_ex_iff)
  then show ?thesis
    by (auto simp: swap_schedule_def select_schedule_one_def split: option.splits)
qed

lemma swap_lessons_noop:
  assumes "day_code_at d1 = Some c1" "day_code_at d2 = Some c2"
      and "\<not> list_ex (lesson_at n1 c1 (int p1 + 1)) rows
             \<or> \<not> list_ex (lesson_at n2 c2 (int p2 + 1)) rows"
  shows "swap_lessons n1 d1 p1 n2 d2 p2 rows = rows"
proof -
  from assms(3) have "find (lesson_at n1 c1 (int p1 + 1)) rows = None
                     \<or> find (lesson_at n2 c2 (int p2 + 1)) rows = None"
    by (auto simp: find_None_iff list_ex_iff)
  then show ?thesis using assms(1,2)
    by (auto simp: swap_lessons_def select_lesson_one_def Let_def split: option.splits)
qed

lemma swap_lessons_no_code:
  assumes "day_code_at d1 = None \<or> day_code_at d2 = None"
  shows "swap_lessons n1 d1 p1 n2 d2 p2 rows = rows"
  using assms by (auto simp: swap_lessons_def Let_def)

text \<open>Every row keeps its id and key, and rows under other keys are untouched.\<close>

lemma swap_schedule_frame:
  "list_all2 (schedule_row_frame (\<lambda>r. schedule_at n1 (int d1) (int p1) r
                                       \<or> schedule_at n2 (int d2) (int p2) r))
     rows (swap_schedule n1 d1 p1 n2 d2 p2 rows)"
  by (auto simp: swap_schedule_def update_schedule_def list_all2_map2 schedule_row_frame_def
        schedule_at_def intro!: list_all2_refl split: option.splits)

lemma swap_lessons_frame:
  "list_all2 (lesson_row_frame (\<lambda>r. (case day_code_at d1 of None \<Rightarrow> False
                                       | Some c \<Rightarrow> lesson_at n1 c (int p1 + 1) r)
                                   \<or> (case day_code_at d2 of None \<Rightarrow> False
                                       | Some c \<Rightarrow> lesson_at n2 c (int p2 + 1) r)))
     rows (swap_lessons n1 d1 p1 n2 d2 p2 rows)"
  by (auto simp: swap_lessons_def update_lessons_def list_all2_map2 lesson_row_frame_def
        lesson_at_def Let_def intro!: list_all2_refl split: option.splits)

text \<open>The result of the swap when both class names exist, and when one does not.\<close>

lemma swap_result:
  assumes "class_name_at class_names c1 = Some n1" "class_name_at class_names c2 = Some n2"
      and "n1 \<noteq> []" "n2 \<noteq> []"
  shows "update_db_with_cell_swap class_names (c1, d1, p1) (c2, d2, p2) (Some d) =
           Some (d\<lparr>SCHEDULE := map_option (swap_schedule n1 d1 p1 n2 d2 p2) (SCHEDULE d),
                   SCHEDULED_LESSONS := map_option (swap_lessons n1 d1 p1 n2 d2 p2)
                                          (SCHEDULED_LESSONS d)\<rparr>)"
  using assms by (simp add: update_db_with_cell_swap_def Let_def)

lemma swap_no_name:
  assumes "\<not> truthy (class_name_at class_names c1) \<or> \<not> truthy (class_name_at class_names c2)"
  shows "update_db_with_cell_swap class_names (c1, d1, p1) (c2, d2, p2) store = store"
  using assms by (auto simp: update_db_with_cell_swap_def Let_def)

lemma truthy_cases:
  obtains (no_name) "\<not> truthy a \<or> \<not> truthy b"
        | (names) n1 n2 where "a = Some n1" "b = Some n2" "n1 \<noteq> []" "n2 \<noteq> []"
  by (cases a; cases b) auto

text \<open>
  C10. A table is rewritten only when both swapped cells have a row in it: when at least
  one of the two cells has no row in \<^verbatim>\<open>SCHEDULE\<close>, the whole \<^verbatim>\<open>SCHEDULE\<close> table is
  the same after the swap, also when the other cell has a row; and the same for
  \<^verbatim>\<open>SCHEDULED_LESSONS\<close>. The swap of an existing store always returns a store.
\<close>

theorem swap_updates_schema_only_if_both_rows:
  "\<exists>d'. update_db_with_cell_swap class_names cell1 cell2 (Some d) = Some d' \<and>
     (\<not> (cell_has_schedule_row class_names cell1 d \<and> cell_has_schedule_row class_names cell2 d)
        \<longrightarrow> SCHEDULE d' = SCHEDULE d) \<and>
     (\<not> (cell_has_lesson_row class_names cell1 d \<and> cell_has_lesson_row class_names cell2 d)
        \<longrightarrow> SCHEDULED_LESSONS d' = SCHEDULED_LESSONS d)"
proof -
  obtain c1 d1 p1 c2 d2 p2 where cells: "cell1 = (c1, d1, p1)" "cell2 = (c2, d2, p2)"
    by (metis prod_cases3)
  show ?thesis
  proof (cases "class_name_at class_names c1" "class_name_at class_names c2" rule: truthy_cases)
    case no_name
    then show ?thesis by (simp add: cells swap_no_name)
  next
    case (names n1 n2)
    let ?d' = "d\<lparr>SCHEDULE := map_option (swap_schedule n1 d1 p1 n2 d2 p2) (SCHEDULE d),
                   SCHEDULED_LESSONS := map_option (swap_lessons n1 d1 p1 n2 d2 p2)
                                          (SCHEDULED_LESSONS d)\<rparr>"
    have res: "update_db_with_cell_swap class_names cell1 cell2 (Some d) = Some ?d'"
      unfolding cells by (rule swap_result [OF names])
    have a: "SCHEDULE ?d' = SCHEDULE d"
      if "\<not> (cell_has_schedule_row class_names cell1 d
              \<and> cell_has_schedule_row class_names cell2 d)"
    proof (cases "SCHEDULE d")
      case None
      then show ?thesis by simp
    next
      case (Some rows)
      with that have "\<not> list_ex (schedule_at n1 (int d1) (int p1)) rows
                       \<or> \<not> list_ex (schedule_at n2 (int d2) (int p2)) rows"
        by (simp add: cell_has_schedule_row_def schedule_row_of_cell_def cells names list_ex_iff)
      then show ?thesis by (simp add: Some swap_schedule_noop)
    qed
    have b: "SCHEDULED_LESSONS ?d' = SCHEDULED_LESSONS d"
      if "\<not> (cell_has_lesson_row class_names cell1 d \<and> cell_has_lesson_row class_names cell2 d)"
    proof (cases "SCHEDULED_LESSONS d")
      case None
      then show ?thesis by simp
    next
      case (Some rows)
      show ?thesis
      proof (cases "day_code_at d1 = None \<or> day_code_at d2 = None")
        case True
        then show ?thesis by (simp add: Some swap_lessons_no_code)
      next
        case False
        then obtain k1 k2 where k: "day_code_at d1 = Some k1" "day_code_at d2 = Some k2"
          by auto
        with that Some have "\<not> list_ex (lesson_at n1 k1 (int p1 + 1)) rows
                         \<or> \<not> list_ex (lesson_at n2 k2 (int p2 + 1)) rows"
          by (simp add: cell_has_lesson_row_def lesson_row_of_cell_def cells names list_ex_iff)
        then show ?thesis by (simp add: Some swap_lessons_noop [OF k])
      qed
    qed
    show ?thesis using res a b by auto
  qed
qed

lemma one_sided_facts:
  "cell_has_schedule_row [''CSE'', ''ECE''] (0, 0, 0) one_sided_db"
  "\<not> cell_has_schedule_row [''CSE'', ''ECE''] (1, 0, 1) one_sided_db"
  "cell_has_lesson_row [''CSE'', ''ECE''] (0, 0, 0) one_sided_db"
  "\<not> cell_has_lesson_row [''CSE'', ''ECE''] (1, 0, 1) one_sided_db"
  by (simp_all add: cell_has_schedule_row_def cell_has_lesson_row_def schedule_row_of_cell_def
        lesson_row_of_cell_def one_sided_db_def empty_db_def class_name_at_def schedule_at_def
        lesson_at_def cse_row_1_def cse_lesson_def day_code_at_def day_codes_def)

theorem swap_updates_schema_only_if_both_rows_witness:
  "cell_has_schedule_row [''CSE'', ''ECE''] (0, 0, 0) one_sided_db
   \<and> \<not> cell_has_schedule_row [''CSE'', ''ECE''] (1, 0, 1) one_sided_db
   \<and> cell_has_lesson_row [''CSE'', ''ECE''] (0, 0, 0) one_sided_db
   \<and> \<not> cell_has_lesson_row [''CSE'', ''ECE''] (1, 0, 1) one_sided_db
   \<and> (\<exists>d'. update_db_with_cell_swap [''CSE'', ''ECE''] (0, 0, 0) (1, 0, 1) (Some one_sided_db)
              = Some d'
            \<and> SCHEDULE d' = Some [cse_row_1] \<and> SCHEDULED_LESSONS d' = Some [cse_lesson])"
proof -
  have s: "SCHEDULE one_sided_db = Some [cse_row_1]"
    and l: "SCHEDULED_LESSONS one_sided_db = Some [cse_lesson]"
    by (simp_all add: one_sided_db_def empty_db_def)
  from swap_updates_schema_only_if_both_rows
         [of "[''CSE'', ''ECE'']" "(0, 0, 0)" "(1, 0, 1)" one_sided_db]
  show ?thesis using one_sided_facts by (auto simp: s l)
qed

lemma list_all2_frame_has_row:
  assumes "list_all2 (schedule_row_frame sw) rows rows'"
  shows "list_ex (schedule_at n d p) rows' = list_ex (schedule_at n d p) rows"
  using assms
  by (induction rule: list_all2_induct) (auto simp: schedule_row_frame_def schedule_at_def)

lemma list_all2_frame_has_lesson:
  assumes "list_all2 (lesson_row_frame sw) rows rows'"
  shows "list_ex (lesson_at n c p) rows' = list_ex (lesson_at n c p) rows"
  using assms
  by (induction rule: list_all2_induct) (auto simp: lesson_row_frame_def lesson_at_def)

lemma schedule_frame_refl: "rel_option (list_all2 (schedule_row_frame sw)) t t"
  by (cases t) (auto simp: schedule_row_frame_def intro!: list_all2_refl)

lemma lesson_frame_refl: "rel_option (list_all2 (lesson_row_frame sw)) t t"
  by (cases t) (auto simp: lesson_row_frame_def intro!: list_all2_refl)

lemma has_schedule_row_frame:
  assumes "rel_option (list_all2 (schedule_row_frame sw)) (SCHEDULE d) (SCHEDULE d')"
  shows "cell_has_schedule_row class_names cell d' = cell_has_schedule_row class_names cell d"
proof (cases "SCHEDULE d")
  case None
  with assms show ?thesis by (simp add: cell_has_schedule_row_def)
next
  case (Some rows)
  with assms obtain rows' where r: "SCHEDULE d' = Some rows'"
      "list_all2 (schedule_row_frame sw) rows rows'"
    by (auto simp: option_rel_Some1)
  obtain c day p where cell: "cell = (c, day, p)" by (metis prod_cases3)
  show ?thesis
    using list_all2_frame_has_row [OF r(2)]
    by (cases "class_name_at class_names c")
       (simp_all add: cell_has_schedule_row_def Some r(1) schedule_row_of_cell_def cell
          list_ex_iff)
qed

lemma has_lesson_row_frame:
  assumes "rel_option (list_all2 (lesson_row_frame sw)) (SCHEDULED_LESSONS d)
             (SCHEDULED_LESSONS d')"
  shows "cell_has_lesson_row class_names cell d' = cell_has_lesson_row class_names cell d"
proof (cases "SCHEDULED_LESSONS d")
  case None
  with assms show ?thesis by (simp add: cell_has_lesson_row_def)
next
  case (Some rows)
  with assms obtain rows' where r: "SCHEDULED_LESSONS d' = Some rows'"
      "list_all2 (lesson_row_frame sw) rows rows'"
    by (auto simp: option_rel_Some1)
  obtain c day p where cell: "cell = (c, day, p)" by (metis prod_cases3)
  show ?thesis
    using list_all2_frame_has_lesson [OF r(2)]
    by (cases "class_name_at class_names c"; cases "day_code_at day")
       (simp_all add: cell_has_lesson_row_def Some r(1) lesson_row_of_cell_def cell
          list_ex_iff)
qed

text \<open>
  C8. The swap only overwrites rows in place. Without the database file nothing is
  created. Otherwise each of the two schedule tables has, after the swap, the same rows
  in the same positions with the same ids and keys (so no row was inserted or deleted),
  and every row that belongs to neither swapped cell is unchanged; a cell has a row in a
  table afterwards exactly when it had one before, so a table without a row for a swapped
  cell gets none; and the other tables are unchanged.
\<close>

theorem swap_only_overwrites_existing_rows:
  "update_db_with_cell_swap class_names cell1 cell2 None = None \<and>
   (\<exists>d'. update_db_with_cell_swap class_names cell1 cell2 (Some d) = Some d' \<and>
      rel_option (list_all2 (schedule_row_frame
          (\<lambda>r. schedule_row_of_cell class_names cell1 r \<or> schedule_row_of_cell class_names cell2 r)))
        (SCHEDULE d) (SCHEDULE d') \<and>
      rel_option (list_all2 (lesson_row_frame
          (\<lambda>r. lesson_row_of_cell class_names cell1 r \<or> lesson_row_of_cell class_names cell2 r)))
        (SCHEDULED_LESSONS d) (SCHEDULED_LESSONS d') \<and>
      (\<forall>cell. cell_has_schedule_row class_names cell d' = cell_has_schedule_row class_names cell d) \<and>
      (\<forall>cell. cell_has_lesson_row class_names cell d' = cell_has_lesson_row class_names cell d) \<and>
      SUBJECTS d' = SUBJECTS d \<and> FACULTY d' = FACULTY d \<and> LESSONS d' = LESSONS d \<and>
      TIMETABLE_SETTINGS d' = TIMETABLE_SETTINGS d \<and> CLASS d' = CLASS d)"
proof -
  obtain c1 d1 p1 c2 d2 p2 where cells: "cell1 = (c1, d1, p1)" "cell2 = (c2, d2, p2)"
    by (metis prod_cases3)
  have none: "update_db_with_cell_swap class_names cell1 cell2 None = None"
    by (simp add: update_db_with_cell_swap_def cells Let_def)
  let ?sw = "\<lambda>r. schedule_row_of_cell class_names cell1 r \<or> schedule_row_of_cell class_names cell2 r"
  let ?lw = "\<lambda>r. lesson_row_of_cell class_names cell1 r \<or> lesson_row_of_cell class_names cell2 r"
  have "\<exists>d'. update_db_with_cell_swap class_names cell1 cell2 (Some d) = Some d' \<and>
      rel_option (list_all2 (schedule_row_frame ?sw)) (SCHEDULE d) (SCHEDULE d') \<and>
      rel_option (list_all2 (lesson_row_frame ?lw)) (SCHEDULED_LESSONS d) (SCHEDULED_LESSONS d') \<and>
      SUBJECTS d' = SUBJECTS d \<and> FACULTY d' = FACULTY d \<and> LESSONS d' = LESSONS d \<and>
      TIMETABLE_SETTINGS d' = TIMETABLE_SETTINGS d \<and> CLASS d' = CLASS d"
  proof (cases "class_name_at class_names c1" "class_name_at class_names c2" rule: truthy_cases)
    case no_name
    then have "update_db_with_cell_swap class_names cell1 cell2 (Some d) = Some d"
      by (simp add: cells swap_no_name)
    then show ?thesis by (simp add: schedule_frame_refl lesson_frame_refl)
  next
    case (names n1 n2)
    let ?d' = "d\<lparr>SCHEDULE := map_option (swap_schedule n1 d1 p1 n2 d2 p2) (SCHEDULE d),
                   SCHEDULED_LESSONS := map_option (swap_lessons n1 d1 p1 n2 d2 p2)
                                          (SCHEDULED_LESSONS d)\<rparr>"
    have res: "update_db_with_cell_swap class_names cell1 cell2 (Some d) = Some ?d'"
      unfolding cells by (rule swap_result [OF names])
    have sw: "?sw = (\<lambda>r. schedule_at n1 (int d1) (int p1) r \<or> schedule_at n2 (int d2) (int p2) r)"
      by (simp add: schedule_row_of_cell_def cells names)
    have lw: "?lw = (\<lambda>r. (case day_code_at d1 of None \<Rightarrow> False
                           | Some c \<Rightarrow> lesson_at n1 c (int p1 + 1) r)
                        \<or> (case day_code_at d2 of None \<Rightarrow> False
                           | Some c \<Rightarrow> lesson_at n2 c (int p2 + 1) r))"
      by (simp add: lesson_row_of_cell_def cells names)
    have a: "rel_option (list_all2 (schedule_row_frame ?sw)) (SCHEDULE d) (SCHEDULE ?d')"
      unfolding sw by (cases "SCHEDULE d") (simp_all add: swap_schedule_frame)
    have b: "rel_option (list_all2 (lesson_row_frame ?lw)) (SCHEDULED_LESSONS d)
               (SCHEDULED_LESSONS ?d')"
      unfolding lw by (cases "SCHEDULED_LESSONS d") (simp_all add: swap_lessons_frame)
    show ?thesis using res a b by simp
  qed
  then obtain d' where d': "update_db_with_cell_swap class_names cell1 cell2 (Some d) = Some d'"
      "rel_option (list_all2 (schedule_row_frame ?sw)) (SCHEDULE d) (SCHEDULE d')"
      "rel_option (list_all2 (lesson_row_frame ?lw)) (SCHEDULED_LESSONS d) (SCHEDULED_LESSONS d')"
      "SUBJECTS d' = SUBJECTS d \<and> FACULTY d' = FACULTY d \<and> LESSONS d' = LESSONS d \<and>
       TIMETABLE_SETTINGS d' = TIMETABLE_SETTINGS d \<and> CLASS d' = CLASS d"
    by blast
  have "\<forall>cell. cell_has_schedule_row class_names cell d' = cell_has_schedule_row class_names cell d"
    using has_schedule_row_frame [OF d'(2)] by simp
  moreover
  have "\<forall>cell. cell_has_lesson_row class_names cell d' = cell_has_lesson_row class_names cell d"
    using has_lesson_row_frame [OF d'(3)] by simp
  ultimately show ?thesis using none d' by blast
qed

lemma partial_swap_result:
  "update_db_with_cell_swap [''CSE'', ''ECE''] (0, 0, 0) (1, 0, 1) (Some partial_swap_db) =
     Some (partial_swap_db
             \<lparr>SCHEDULE := Some [cse_row_1\<lparr>sch_SUBCODE := ''Ch'', sch_FINI := ''ZZ''\<rparr>,
                                ece_row\<lparr>sch_SUBCODE := ''Ma'', sch_FINI := ''JD''\<rparr>]\<rparr>)"
  by (simp add: update_db_with_cell_swap_def class_name_at_def partial_swap_db_def empty_db_def
        swap_schedule_def select_schedule_one_def update_schedule_def schedule_at_def
        swap_lessons_def select_lesson_one_def update_lessons_def lesson_at_def
        cse_row_1_def ece_row_def cse_lesson_def day_code_at_def day_codes_def Let_def)

text \<open>
  The scenario of a partial swap: both cells have a row in the current table, which is
  rewritten; the ECE cell has no legacy row, the legacy table is left as it is and the ECE
  cell still has no legacy row.
\<close>

theorem swap_only_overwrites_existing_rows_witness:
  "update_db_with_cell_swap [''CSE'', ''ECE''] (0, 0, 0) (1, 0, 1) None = None
   \<and> (\<exists>d'. update_db_with_cell_swap [''CSE'', ''ECE''] (0, 0, 0) (1, 0, 1) (Some partial_swap_db)
              = Some d'
        \<and> SCHEDULE d' = Some [cse_row_1\<lparr>sch_SUBCODE := ''Ch'', sch_FINI := ''ZZ''\<rparr>,
                               ece_row\<lparr>sch_SUBCODE := ''Ma'', sch_FINI := ''JD''\<rparr>]
        \<and> SCHEDULED_LESSONS d' = Some [cse_lesson]
        \<and> \<not> cell_has_lesson_row [''CSE'', ''ECE''] (1, 0, 1) d'
        \<and> rel_option (list_all2 (schedule_row_frame
              (\<lambda>r. schedule_row_of_cell [''CSE'', ''ECE''] (0, 0, 0) r
                    \<or> schedule_row_of_cell [''CSE'', ''ECE''] (1, 0, 1) r)))
            (SCHEDULE partial_swap_db) (SCHEDULE d'))"
proof -
  let ?cn = "[''CSE'', ''ECE'']"
  let ?after = "partial_swap_db
                  \<lparr>SCHEDULE := Some [cse_row_1\<lparr>sch_SUBCODE := ''Ch'', sch_FINI := ''ZZ''\<rparr>,
                                     ece_row\<lparr>sch_SUBCODE := ''Ma'', sch_FINI := ''JD''\<rparr>]\<rparr>"
  have l: "SCHEDULED_LESSONS partial_swap_db = Some [cse_lesson]"
    by (simp add: partial_swap_db_def empty_db_def)
  have n: "\<not> cell_has_lesson_row ?cn (1, 0, 1) partial_swap_db"
    by (simp add: cell_has_lesson_row_def l lesson_row_of_cell_def class_name_at_def
          day_code_at_def day_codes_def lesson_at_def cse_lesson_def)
  from swap_only_overwrites_existing_rows [of ?cn "(0, 0, 0)" "(1, 0, 1)" partial_swap_db]
  obtain d' where none: "update_db_with_cell_swap ?cn (0, 0, 0) (1, 0, 1) None = None"
    and d': "update_db_with_cell_swap ?cn (0, 0, 0) (1, 0, 1) (Some partial_swap_db) = Some d'"
    and frame: "rel_option (list_all2 (schedule_row_frame
                  (\<lambda>r. schedule_row_of_cell ?cn (0, 0, 0) r \<or> schedule_row_of_cell ?cn (1, 0, 1) r)))
                (SCHEDULE partial_swap_db) (SCHEDULE d')"
    and has: "\<forall>cell. cell_has_lesson_row ?cn cell d' = cell_has_lesson_row ?cn cell partial_swap_db"
    by blast
  have eq: "d' = ?after"
    using d' partial_swap_result by simp
  have "SCHEDULE d' = Some [cse_row_1\<lparr>sch_SUBCODE := ''Ch'', sch_FINI := ''ZZ''\<rparr>,
                            ece_row\<lparr>sch_SUBCODE := ''Ma'', sch_FINI := ''JD''\<rparr>]"
    and "SCHEDULED_LESSONS d' = Some [cse_lesson]"
    by (simp_all add: eq l)
  moreover have "\<not> cell_has_lesson_row ?cn (1, 0, 1) d'"
    using has n by simp
  ultimately show ?thesis using none d' frame by blast
qed

text \<open>Swapping twice gives the table back when the rows of each key agree.\<close>

lemma swap_schedule_twice:
  assumes u1: "uniform_schedule n1 (int d1) (int p1) rows"
      and u2: "uniform_schedule n2 (int d2) (int p2) rows"
  shows "swap_schedule n1 d1 p1 n2 d2 p2 (swap_schedule n1 d1 p1 n2 d2 p2 rows) = rows"
proof (cases "select_schedule_one rows n1 (int d1) (int p1)")
  case None
  then show ?thesis by (simp add: swap_schedule_def)
next
  case (Some v1)
  note s1 = Some
  show ?thesis
  proof (cases "select_schedule_one rows n2 (int d2) (int p2)")
    case None
    then show ?thesis by (simp add: swap_schedule_def s1)
  next
    case (Some v2)
    note s2 = Some
    obtain r1 where f1: "find (schedule_at n1 (int d1) (int p1)) rows = Some r1"
      and v1: "v1 = (sch_SUBCODE r1, sch_FINI r1)"
      using s1 by (auto simp: select_schedule_one_def)
    obtain r2 where f2: "find (schedule_at n2 (int d2) (int p2)) rows = Some r2"
      and v2: "v2 = (sch_SUBCODE r2, sch_FINI r2)"
      using s2 by (auto simp: select_schedule_one_def)
    let ?rows1 = "update_schedule v1 n2 (int d2) (int p2)
                    (update_schedule v2 n1 (int d1) (int p1) rows)"
    have once: "swap_schedule n1 d1 p1 n2 d2 p2 rows = ?rows1"
      by (simp add: swap_schedule_def s1 s2)
    have at1: "schedule_at n1 (int d1) (int p1) r1" and at2: "schedule_at n2 (int d2) (int p2) r2"
      using f1 f2 by (auto simp: find_Some_iff)
    have sel1: "select_schedule_one ?rows1 n1 (int d1) (int p1) =
                  Some (if schedule_at n2 (int d2) (int p2) r1 then v1 else v2)"
      by (simp add: select_schedule_one_def find_update_schedule f1 at1 v1 v2)
    have sel2: "select_schedule_one ?rows1 n2 (int d2) (int p2) = Some v1"
      by (simp add: select_schedule_one_def find_update_schedule f2 at2 v1 v2)
    have all1: "\<And>r. r \<in> set rows \<Longrightarrow> schedule_at n1 (int d1) (int p1) r \<Longrightarrow>
                   (sch_SUBCODE r, sch_FINI r) = v1"
      using u1 s1 by (auto simp: uniform_schedule_def list_all_iff)
    have all2: "\<And>r. r \<in> set rows \<Longrightarrow> schedule_at n2 (int d2) (int p2) r \<Longrightarrow>
                   (sch_SUBCODE r, sch_FINI r) = v2"
      using u2 s2 by (auto simp: uniform_schedule_def list_all_iff)
    have r1in: "r1 \<in> set rows" using f1 by (auto simp: find_Some_iff)
    have both: "schedule_at n2 (int d2) (int p2) r1 \<Longrightarrow> v1 = v2"
      using all1 [OF r1in at1] all2 [OF r1in] by simp
    have sel1': "select_schedule_one ?rows1 n1 (int d1) (int p1) = Some v2"
      using sel1 both by auto
    have "swap_schedule n1 d1 p1 n2 d2 p2 ?rows1 =
            update_schedule v2 n2 (int d2) (int p2)
              (update_schedule v1 n1 (int d1) (int p1) ?rows1)"
      by (simp add: swap_schedule_def sel1' sel2)
    also have "\<dots> = rows"
      unfolding update_schedule_def map_map
    proof (rule map_idI)
      fix r assume rin: "r \<in> set rows"
      show "((\<lambda>r. if schedule_at n2 (int d2) (int p2) r
                   then r\<lparr>sch_SUBCODE := fst v2, sch_FINI := snd v2\<rparr> else r) \<circ>
             ((\<lambda>r. if schedule_at n1 (int d1) (int p1) r
                   then r\<lparr>sch_SUBCODE := fst v1, sch_FINI := snd v1\<rparr> else r) \<circ>
              ((\<lambda>r. if schedule_at n2 (int d2) (int p2) r
                   then r\<lparr>sch_SUBCODE := fst v1, sch_FINI := snd v1\<rparr> else r) \<circ>
               (\<lambda>r. if schedule_at n1 (int d1) (int p1) r
                   then r\<lparr>sch_SUBCODE := fst v2, sch_FINI := snd v2\<rparr> else r)))) r = r"
        using all1 [OF rin] all2 [OF rin] by (auto simp: prod_eq_iff)
    qed
    finally show ?thesis by (simp add: once)
  qed
qed

lemma swap_lessons_twice:
  assumes u1: "\<And>c. day_code_at d1 = Some c \<Longrightarrow> uniform_lessons n1 c (int p1 + 1) rows"
      and u2: "\<And>c. day_code_at d2 = Some c \<Longrightarrow> uniform_lessons n2 c (int p2 + 1) rows"
  shows "swap_lessons n1 d1 p1 n2 d2 p2 (swap_lessons n1 d1 p1 n2 d2 p2 rows) = rows"
proof (cases "day_code_at d1 = None \<or> day_code_at d2 = None")
  case True
  then show ?thesis by (simp add: swap_lessons_no_code)
next
  case False
  then obtain c1 c2 where c: "day_code_at d1 = Some c1" "day_code_at d2 = Some c2" by auto
  have ne: "c1 \<noteq> []" "c2 \<noteq> []"
    using c by (auto simp: day_code_at_def day_codes_def nth_Cons' split: if_splits)
  have unfold: "\<And>rs. swap_lessons n1 d1 p1 n2 d2 p2 rs =
      (case (select_lesson_one rs n1 c1 (int p1 + 1), select_lesson_one rs n2 c2 (int p2 + 1)) of
         (Some v1, Some v2) \<Rightarrow>
            update_lessons v1 n2 c2 (int p2 + 1) (update_lessons v2 n1 c1 (int p1 + 1) rs)
       | _ \<Rightarrow> rs)"
    by (simp add: swap_lessons_def c ne Let_def split: option.splits)
  show ?thesis
  proof (cases "select_lesson_one rows n1 c1 (int p1 + 1)")
    case None
    then show ?thesis by (simp add: unfold)
  next
    case (Some v1)
    note s1 = Some
    show ?thesis
    proof (cases "select_lesson_one rows n2 c2 (int p2 + 1)")
      case None
      then show ?thesis by (simp add: unfold s1)
    next
      case (Some v2)
      note s2 = Some
      obtain r1 where f1: "find (lesson_at n1 c1 (int p1 + 1)) rows = Some r1"
        and v1: "v1 = (sl_SUBJECT_CODE r1, sl_TEACHER_ID r1)"
        using s1 by (auto simp: select_lesson_one_def)
      obtain r2 where f2: "find (lesson_at n2 c2 (int p2 + 1)) rows = Some r2"
        and v2: "v2 = (sl_SUBJECT_CODE r2, sl_TEACHER_ID r2)"
        using s2 by (auto simp: select_lesson_one_def)
      let ?rows1 = "update_lessons v1 n2 c2 (int p2 + 1)
                      (update_lessons v2 n1 c1 (int p1 + 1) rows)"
      have once: "swap_lessons n1 d1 p1 n2 d2 p2 rows = ?rows1"
        by (simp add: unfold s1 s2)
      have at1: "lesson_at n1 c1 (int p1 + 1) r1" and at2: "lesson_at n2 c2 (int p2 + 1) r2"
        using f1 f2 by (auto simp: find_Some_iff)
      have sel1: "select_lesson_one ?rows1 n1 c1 (int p1 + 1) =
                    Some (if lesson_at n2 c2 (int p2 + 1) r1 then v1 else v2)"
        by (simp add: select_lesson_one_def find_update_lessons f1 at1 v1 v2)
      have sel2: "select_lesson_one ?rows1 n2 c2 (int p2 + 1) = Some v1"
        by (simp add: select_lesson_one_def find_update_lessons f2 at2 v1 v2)
      have all1: "\<And>r. r \<in> set rows \<Longrightarrow> lesson_at n1 c1 (int p1 + 1) r \<Longrightarrow>
                     (sl_SUBJECT_CODE r, sl_TEACHER_ID r) = v1"
        using u1 [OF c(1)] s1 by (auto simp: uniform_lessons_def list_all_iff)
      have all2: "\<And>r. r \<in> set rows \<Longrightarrow> lesson_at n2 c2 (int p2 + 1) r \<Longrightarrow>
                     (sl_SUBJECT_CODE r, sl_TEACHER_ID r) = v2"
        using u2 [OF c(2)] s2 by (auto simp: uniform_lessons_def list_all_iff)
      have r1in: "r1 \<in> set rows" using f1 by (auto simp: find_Some_iff)
      have both: "lesson_at n2 c2 (int p2 + 1) r1 \<Longrightarrow> v1 = v2"
        using all1 [OF r1in at1] all2 [OF r1in] by simp
      have sel1': "select_lesson_one ?rows1 n1 c1 (int p1 + 1) = Some v2"
        using sel1 both by auto
      have "swap_lessons n1 d1 p1 n2 d2 p2 ?rows1 =
              update_lessons v2 n2 c2 (int p2 + 1)
                (update_lessons v1 n1 c1 (int p1 + 1) ?rows1)"
        by (simp add: unfold sel1' sel2)
      also have "\<dots> = rows"
        unfolding update_lessons_def map_map
      proof (rule map_idI)
        fix r assume rin: "r \<in> set rows"
        show "((\<lambda>r. if lesson_at n2 c2 (int p2 + 1) r
                     then r\<lparr>sl_SUBJECT_CODE := fst v2, sl_TEACHER_ID := snd v2\<rparr> else r) \<circ>
               ((\<lambda>r. if lesson_at n1 c1 (int p1 + 1) r
                     then r\<lparr>sl_SUBJECT_CODE := fst v1, sl_TEACHER_ID := snd v1\<rparr> else r) \<circ>
                ((\<lambda>r. if lesson_at n2 c2 (int p2 + 1) r
                     then r\<lparr>sl_SUBJECT_CODE := fst v1, sl_TEACHER_ID := snd v1\<rparr> else r) \<circ>
                 (\<lambda>r. if lesson_at n1 c1 (int p1 + 1) r
                     then r\<lparr>sl_SUBJECT_CODE := fst v2, sl_TEACHER_ID := snd v2\<rparr> else r)))) r = r"
          using all1 [OF rin] all2 [OF rin] by (auto simp: prod_eq_iff)
      qed
      finally show ?thesis by (simp add: once)
    qed
  qed
qed

text \<open>
  C7, as the claim states it, fails: the cell (CSE, day 0, period 0) has two
  \<^verbatim>\<open>SCHEDULE\<close> rows with different subjects; the first swap with the distinct cell
  (ECE, day 0, period 1) overwrites both, and the second swap writes the first row's
  subject into both. The store after two swaps is not the original store.
\<close>

theorem swap_twice_counterexample:
  "update_db_with_cell_swap [''CSE'', ''ECE''] (0, 0, 0) (1, 0, 1)
     (update_db_with_cell_swap [''CSE'', ''ECE''] (0, 0, 0) (1, 0, 1) (Some duplicate_rows_db))
   = Some (duplicate_rows_db\<lparr>SCHEDULE := Some [cse_row_1, cse_row_2\<lparr>sch_SUBCODE := ''Ma'', sch_FINI := ''JD''\<rparr>, ece_row]\<rparr>)
   \<and> update_db_with_cell_swap [''CSE'', ''ECE''] (0, 0, 0) (1, 0, 1)
     (update_db_with_cell_swap [''CSE'', ''ECE''] (0, 0, 0) (1, 0, 1) (Some duplicate_rows_db))
   \<noteq> Some duplicate_rows_db"
  by (simp add: update_db_with_cell_swap_def class_name_at_def duplicate_rows_db_def empty_db_def
        swap_schedule_def select_schedule_one_def update_schedule_def schedule_at_def
        swap_lessons_def select_lesson_one_def update_lessons_def lesson_at_def
        cse_row_1_def cse_row_2_def ece_row_def day_code_at_def day_codes_def Let_def)

text \<open>
  C7, amended. When in each table all rows stored for each of the two swapped cells
  carry the same subject and faculty (as they do when a cell has at most one row per
  table), two swaps of the same pair of cells in a row restore the store exactly, in both
  tables.
\<close>

theorem swap_twice_restores:
  assumes "cell_uniform class_names cell1 d" and "cell_uniform class_names cell2 d"
  shows "update_db_with_cell_swap class_names cell1 cell2
           (update_db_with_cell_swap class_names cell1 cell2 (Some d)) = Some d"
proof -
  obtain c1 d1 p1 c2 d2 p2 where cells: "cell1 = (c1, d1, p1)" "cell2 = (c2, d2, p2)"
    by (metis prod_cases3)
  show ?thesis
  proof (cases "class_name_at class_names c1" "class_name_at class_names c2" rule: truthy_cases)
    case no_name
    then show ?thesis by (simp add: cells swap_no_name)
  next
    case (names n1 n2)
    let ?f = "swap_schedule n1 d1 p1 n2 d2 p2" and ?g = "swap_lessons n1 d1 p1 n2 d2 p2"
    let ?d' = "d\<lparr>SCHEDULE := map_option ?f (SCHEDULE d),
                   SCHEDULED_LESSONS := map_option ?g (SCHEDULED_LESSONS d)\<rparr>"
    have res: "\<And>x. update_db_with_cell_swap class_names cell1 cell2 (Some x) =
                 Some (x\<lparr>SCHEDULE := map_option ?f (SCHEDULE x),
                         SCHEDULED_LESSONS := map_option ?g (SCHEDULED_LESSONS x)\<rparr>)"
      unfolding cells by (rule swap_result [OF names])
    have a: "map_option ?f (map_option ?f (SCHEDULE d)) = SCHEDULE d"
    proof (cases "SCHEDULE d")
      case None
      then show ?thesis by simp
    next
      case (Some rows)
      with assms have "uniform_schedule n1 (int d1) (int p1) rows"
          "uniform_schedule n2 (int d2) (int p2) rows"
        by (simp_all add: cell_uniform_def cells names)
      then show ?thesis by (simp add: Some swap_schedule_twice)
    qed
    have b: "map_option ?g (map_option ?g (SCHEDULED_LESSONS d)) = SCHEDULED_LESSONS d"
    proof (cases "SCHEDULED_LESSONS d")
      case None
      then show ?thesis by simp
    next
      case (Some rows)
      with assms have "\<And>c. day_code_at d1 = Some c \<Longrightarrow> uniform_lessons n1 c (int p1 + 1) rows"
          "\<And>c. day_code_at d2 = Some c \<Longrightarrow> uniform_lessons n2 c (int p2 + 1) rows"
        by (simp_all add: cell_uniform_def cells names)
      then show ?thesis by (simp add: Some swap_lessons_twice)
    qed
    show ?thesis by (simp add: res a b)
  qed
qed

theorem swap_twice_restores_witness:
  "cell_uniform [''CSE'', ''ECE''] (0, 0, 0) partial_swap_db
   \<and> cell_uniform [''CSE'', ''ECE''] (1, 0, 1) partial_swap_db
   \<and> update_db_with_cell_swap [''CSE'', ''ECE''] (0, 0, 0) (1, 0, 1) (Some partial_swap_db)
       \<noteq> Some partial_swap_db
   \<and> update_db_with_cell_swap [''CSE'', ''ECE''] (0, 0, 0) (1, 0, 1)
       (update_db_with_cell_swap [''CSE'', ''ECE''] (0, 0, 0) (1, 0, 1) (Some partial_swap_db))
     = Some partial_swap_db"
proof -
  have u1: "cell_uniform [''CSE'', ''ECE''] (0, 0, 0) partial_swap_db"
    and u2: "cell_uniform [''CSE'', ''ECE''] (1, 0, 1) partial_swap_db"
    by (simp_all add: cell_uniform_def class_name_at_def partial_swap_db_def empty_db_def
          uniform_schedule_def uniform_lessons_def select_schedule_one_def select_lesson_one_def
          schedule_at_def lesson_at_def cse_row_1_def ece_row_def cse_lesson_def
          day_code_at_def day_codes_def)
  have ne: "update_db_with_cell_swap [''CSE'', ''ECE''] (0, 0, 0) (1, 0, 1) (Some partial_swap_db)
              \<noteq> Some partial_swap_db"
    unfolding partial_swap_result
    by (simp add: partial_swap_db_def empty_db_def cse_row_1_def ece_row_def)
  show ?thesis using u1 u2 ne swap_twice_restores [OF u1 u2] by simp
qed

subsection \<open>The settings resolver\<close>

lemmas py_int_eval =
  py_int_def strip_def is_space_def is_digit_def digit_val_def max_str_digits_def Let_def

text \<open>Values of \<^verbatim>\<open>int\<close> at blanks, separators, signs and underscores.\<close>

lemma py_int_examples:
  "py_int ''4'' = Some 4"
  "py_int '' -1_0 '' = Some (- 10)"
  "py_int [CHR 0xA0, CHR ''0''] = Some 0"
  "py_int [CHR 0x85, CHR ''0''] = Some 0"
  "py_int [CHR 0x1C, CHR ''1''] = None"
  "py_int ''1__0'' = None"
  "py_int ''+ 1'' = None"
  "py_int [] = None"
  by (simp_all add: py_int_eval)

lemma periods_config_nonempty:
  "periods_info \<noteq> [] \<Longrightarrow> apply_periods_config periods_row periods_info \<noteq> []"
  by (auto simp: apply_periods_config_def split: option.splits)

lemma default_periods_nonempty: "DEFAULT_PERIODS_INFO \<noteq> []"
  by (simp add: DEFAULT_PERIODS_INFO_def)

lemma num_periods_nonempty:
  assumes "periods_info \<noteq> []"
      and "case num_periods_row of None \<Rightarrow> True
           | Some v \<Rightarrow> (case py_int v of None \<Rightarrow> True | Some n \<Rightarrow> 1 \<le> n)"
  shows "apply_num_periods num_periods_row periods_info \<noteq> []"
  using assms
  by (auto simp: apply_num_periods_def DEFAULT_PERIODS_INFO_def split: option.splits)

lemma load_timetable_structure_rows:
  assumes "settings_of conn = Some rows"
  shows "load_timetable_structure conn =
           ((case fetch_setting rows ''DAYS_ENABLED'' of
               None \<Rightarrow> DEFAULT_DAYS
             | Some v \<Rightarrow> filter (\<lambda>day. day \<in> set (split_on CHR '','' v)) DEFAULT_DAYS),
            apply_num_periods (fetch_setting rows ''NUM_PERIODS'')
              (apply_periods_config (fetch_setting rows ''PERIODS_CONFIG'') DEFAULT_PERIODS_INFO))"
  using assms
  by (auto simp: load_timetable_structure_def settings_of_def Let_def split: option.splits)

text \<open>
  C2, evaluated where it fails: \<^verbatim>\<open>PERIODS_CONFIG\<close> is \<^verbatim>\<open>1:8:00-8:45,2:9:00-9:45\<close>, which
  parses to two pairs, and \<^verbatim>\<open>NUM_PERIODS\<close> is 4. The resolved period map is the first
  four default periods, not the two parsed pairs: \<^verbatim>\<open>NUM_PERIODS\<close> is applied although
  \<^verbatim>\<open>PERIODS_CONFIG\<close> is present.
\<close>

theorem num_periods_overrides_periods_config:
  "apply_periods_config (Some ''1:8:00-8:45,2:9:00-9:45'') DEFAULT_PERIODS_INFO
     = [(1, ''8:00-8:45''), (2, ''9:00-9:45'')]
   \<and> snd (load_timetable_structure (Some periods_and_num_db))
     = [(1, ''8:00 - 8:45''), (2, ''9:00 - 9:45''), (3, ''10:00 - 10:45''), (4, ''11:00 - 11:45'')]"
proof -
  have s: "settings_of (Some periods_and_num_db) = Some
        [\<lparr>setting_name = ''PERIODS_CONFIG'', setting_value = Some ''1:8:00-8:45,2:9:00-9:45''\<rparr>,
         \<lparr>setting_name = ''NUM_PERIODS'', setting_value = Some ''4''\<rparr>]"
    by (simp add: settings_of_def periods_and_num_db_def empty_db_def)
  have four: "py_int ''4'' = Some 4"
    by (simp add: py_int_eval)
  have one: "py_int ''1'' = Some 1" and two: "py_int ''2'' = Some 2"
    by (simp_all add: py_int_eval)
  have a: "apply_periods_config (Some ''1:8:00-8:45,2:9:00-9:45'') DEFAULT_PERIODS_INFO
             = [(1, ''8:00-8:45''), (2, ''9:00-9:45'')]"
    by (simp add: apply_periods_config_def split_once_def one two)
  have b: "snd (load_timetable_structure (Some periods_and_num_db))
     = [(1, ''8:00 - 8:45''), (2, ''9:00 - 9:45''), (3, ''10:00 - 10:45''), (4, ''11:00 - 11:45'')]"
    by (simp add: load_timetable_structure_rows [OF s] fetch_setting_def apply_num_periods_def
          four DEFAULT_PERIODS_INFO_def)
  show ?thesis using a b by simp
qed

text \<open>
  C5, as the claim states it, fails: with \<^verbatim>\<open>DAYS_ENABLED\<close> set to \<^verbatim>\<open>Su\<close> no default
  day passes the filter, and with \<^verbatim>\<open>NUM_PERIODS\<close> set to \<^verbatim>\<open>0\<close> no default period
  does. Both results are empty.
\<close>

theorem resolve_settings_empty_counterexample:
  "load_timetable_structure (Some sunday_zero_db) = ([], [])"
proof -
  have s: "settings_of (Some sunday_zero_db) = Some
        [\<lparr>setting_name = ''DAYS_ENABLED'', setting_value = Some ''Su''\<rparr>,
         \<lparr>setting_name = ''NUM_PERIODS'', setting_value = Some ''0''\<rparr>]"
    by (simp add: settings_of_def sunday_zero_db_def empty_db_def)
  have zero: "py_int ''0'' = Some 0"
    by (simp add: py_int_eval)
  show ?thesis
    by (simp add: load_timetable_structure_rows [OF s] fetch_setting_def apply_num_periods_def
          zero DEFAULT_PERIODS_INFO_def DEFAULT_DAYS_def)
qed

text \<open>
  C5, amended. Without a connection or without the settings table the result is the
  static defaults, six days and six periods. With a settings table: the days are the
  default days when \<^verbatim>\<open>DAYS_ENABLED\<close> is unset or empty, and the day list is not empty
  whenever \<^verbatim>\<open>DAYS_ENABLED\<close> is unset or empty or names at least one of Mo to Sa; the
  periods are the default periods when neither period setting applies
  (\<^verbatim>\<open>PERIODS_CONFIG\<close> unset, failing to parse or without a pair, and \<^verbatim>\<open>NUM_PERIODS\<close>
  unset or not an integer), and the period map is not empty whenever \<^verbatim>\<open>NUM_PERIODS\<close>
  is unset or empty, is not an integer, or is at least 1, whatever \<^verbatim>\<open>PERIODS_CONFIG\<close>
  holds.
\<close>

theorem resolve_settings_nonempty:
  "(settings_of conn = None \<longrightarrow>
      load_timetable_structure conn = (DEFAULT_DAYS, DEFAULT_PERIODS_INFO)
      \<and> length DEFAULT_DAYS = 6 \<and> length DEFAULT_PERIODS_INFO = 6)
   \<and> (\<forall>rows. settings_of conn = Some rows \<longrightarrow>
         (fetch_setting rows ''DAYS_ENABLED'' = None \<longrightarrow>
            fst (load_timetable_structure conn) = DEFAULT_DAYS)
         \<and> (\<not> periods_config_applies rows \<and> \<not> num_periods_applies rows \<longrightarrow>
              snd (load_timetable_structure conn) = DEFAULT_PERIODS_INFO)
         \<and> (days_enabled_ok rows \<longrightarrow> fst (load_timetable_structure conn) \<noteq> [])
         \<and> (num_periods_ok rows \<longrightarrow> snd (load_timetable_structure conn) \<noteq> []))"
proof (intro conjI allI impI)
  assume "settings_of conn = None"
  then show "load_timetable_structure conn = (DEFAULT_DAYS, DEFAULT_PERIODS_INFO)"
    by (auto simp: load_timetable_structure_def settings_of_def Let_def split: option.splits)
next
  show "length DEFAULT_DAYS = 6" by (simp add: DEFAULT_DAYS_def)
next
  show "length DEFAULT_PERIODS_INFO = 6" by (simp add: DEFAULT_PERIODS_INFO_def)
next
  fix rows
  assume rows: "settings_of conn = Some rows" and "fetch_setting rows ''DAYS_ENABLED'' = None"
  then show "fst (load_timetable_structure conn) = DEFAULT_DAYS"
    by (simp add: load_timetable_structure_rows [OF rows])
next
  fix rows
  assume rows: "settings_of conn = Some rows"
    and no: "\<not> periods_config_applies rows \<and> \<not> num_periods_applies rows"
  from no have "apply_periods_config (fetch_setting rows ''PERIODS_CONFIG'') DEFAULT_PERIODS_INFO
                  = DEFAULT_PERIODS_INFO"
    by (auto simp: periods_config_applies_def apply_periods_config_def split: option.splits)
  moreover from no have "\<And>p. apply_num_periods (fetch_setting rows ''NUM_PERIODS'') p = p"
    by (auto simp: num_periods_applies_def apply_num_periods_def split: option.splits)
  ultimately show "snd (load_timetable_structure conn) = DEFAULT_PERIODS_INFO"
    by (simp add: load_timetable_structure_rows [OF rows])
next
  fix rows
  assume rows: "settings_of conn = Some rows" and ok: "days_enabled_ok rows"
  show "fst (load_timetable_structure conn) \<noteq> []"
  proof (cases "fetch_setting rows ''DAYS_ENABLED''")
    case None
    then show ?thesis
      by (simp add: load_timetable_structure_rows [OF rows] DEFAULT_DAYS_def)
  next
    case (Some v)
    with ok obtain day where "day \<in> set DEFAULT_DAYS" "day \<in> set (split_on CHR '','' v)"
      by (auto simp: days_enabled_ok_def list_ex_iff)
    then have "day \<in> set (filter (\<lambda>day. day \<in> set (split_on CHR '','' v)) DEFAULT_DAYS)"
      by simp
    then have "filter (\<lambda>day. day \<in> set (split_on CHR '','' v)) DEFAULT_DAYS \<noteq> []"
      by (metis empty_iff empty_set)
    then show ?thesis
      by (simp add: load_timetable_structure_rows [OF rows] Some)
  qed
next
  fix rows
  assume rows: "settings_of conn = Some rows" and ok: "num_periods_ok rows"
  have "apply_periods_config (fetch_setting rows ''PERIODS_CONFIG'') DEFAULT_PERIODS_INFO \<noteq> []"
    by (rule periods_config_nonempty [OF default_periods_nonempty])
  then have "apply_num_periods (fetch_setting rows ''NUM_PERIODS'')
          (apply_periods_config (fetch_setting rows ''PERIODS_CONFIG'') DEFAULT_PERIODS_INFO) \<noteq> []"
    using ok unfolding num_periods_ok_def by (rule num_periods_nonempty)
  then show "snd (load_timetable_structure conn) \<noteq> []"
    by (simp add: load_timetable_structure_rows [OF rows])
qed

text \<open>
  Four stores: no connection; a settings table with nothing set; one whose two period
  settings do not parse; and one with three days enabled and three periods.
\<close>

theorem resolve_settings_nonempty_witness:
  "settings_of None = None
   \<and> load_timetable_structure None = (DEFAULT_DAYS, DEFAULT_PERIODS_INFO)
   \<and> settings_of (Some empty_db) = Some []
   \<and> load_timetable_structure (Some empty_db) = (DEFAULT_DAYS, DEFAULT_PERIODS_INFO)
   \<and> (\<exists>rows. settings_of (Some malformed_settings_db) = Some rows
         \<and> fetch_setting rows ''DAYS_ENABLED'' = None
         \<and> \<not> periods_config_applies rows \<and> \<not> num_periods_applies rows)
   \<and> load_timetable_structure (Some malformed_settings_db) = (DEFAULT_DAYS, DEFAULT_PERIODS_INFO)
   \<and> (\<exists>rows. settings_of (Some three_days_db) = Some rows
         \<and> days_enabled_ok rows \<and> num_periods_ok rows)
   \<and> fst (load_timetable_structure (Some three_days_db)) \<noteq> []
   \<and> snd (load_timetable_structure (Some three_days_db)) \<noteq> []"
proof -
  let ?bad = "[\<lparr>setting_name = ''PERIODS_CONFIG'', setting_value = Some ''x:8:00-8:45''\<rparr>,
               \<lparr>setting_name = ''NUM_PERIODS'', setting_value = Some ''six''\<rparr>]"
  let ?rows = "[\<lparr>setting_name = ''DAYS_ENABLED'', setting_value = Some ''Mo,We,Fr''\<rparr>,
                \<lparr>setting_name = ''NUM_PERIODS'', setting_value = Some ''3''\<rparr>]"
  have n: "settings_of None = None" by (simp add: settings_of_def)
  have e: "settings_of (Some empty_db) = Some []"
    by (simp add: settings_of_def empty_db_def)
  have e1: "fetch_setting [] ''DAYS_ENABLED'' = None"
    and e2: "\<not> periods_config_applies []" and e3: "\<not> num_periods_applies []"
    by (simp_all add: fetch_setting_def periods_config_applies_def num_periods_applies_def)
  have b: "settings_of (Some malformed_settings_db) = Some ?bad"
    by (simp add: settings_of_def malformed_settings_db_def empty_db_def)
  have x: "py_int ''x'' = None" and six: "py_int ''six'' = None"
    by (simp_all add: py_int_eval)
  have b1: "fetch_setting ?bad ''DAYS_ENABLED'' = None"
    by (simp add: fetch_setting_def)
  have b2: "\<not> periods_config_applies ?bad"
    by (simp add: periods_config_applies_def fetch_setting_def split_once_def x)
  have b3: "\<not> num_periods_applies ?bad"
    by (simp add: num_periods_applies_def fetch_setting_def six)
  have s: "settings_of (Some three_days_db) = Some ?rows"
    by (simp add: settings_of_def three_days_db_def empty_db_def)
  have three: "py_int ''3'' = Some 3"
    by (simp add: py_int_eval)
  have d: "days_enabled_ok ?rows"
    by (simp add: days_enabled_ok_def fetch_setting_def DEFAULT_DAYS_def)
  have p: "num_periods_ok ?rows"
    by (simp add: num_periods_ok_def fetch_setting_def three)
  have r0: "load_timetable_structure None = (DEFAULT_DAYS, DEFAULT_PERIODS_INFO)"
    using n resolve_settings_nonempty [of None] by simp
  have r1: "load_timetable_structure (Some empty_db) = (DEFAULT_DAYS, DEFAULT_PERIODS_INFO)"
    using e e1 e2 e3 resolve_settings_nonempty [of "Some empty_db"] by (simp add: prod_eq_iff)
  have r2: "load_timetable_structure (Some malformed_settings_db)
              = (DEFAULT_DAYS, DEFAULT_PERIODS_INFO)"
    using b b1 b2 b3 resolve_settings_nonempty [of "Some malformed_settings_db"]
    by (simp add: prod_eq_iff)
  have r3: "fst (load_timetable_structure (Some three_days_db)) \<noteq> []"
      "snd (load_timetable_structure (Some three_days_db)) \<noteq> []"
    using s d p resolve_settings_nonempty [of "Some three_days_db"] by simp_all
  show ?thesis using n e b b1 b2 b3 s d p r0 r1 r2 r3 by simp
qed

subsection \<open>The conflict detectors\<close>

text \<open>
  Whatever the engine's order of ties, the ordered result has the rows of the join and is
  sorted by the keys; a join of at most one row is returned as it is.
\<close>

lemma mset_swap_neighbours: "mset (swap_neighbours i rows) = mset rows"
  by (simp add: swap_neighbours_def mset_swap)

lemma mset_fold_swap_neighbours: "mset (fold swap_neighbours ties rows) = mset rows"
  by (induction ties arbitrary: rows) (simp_all add: mset_swap_neighbours)

lemma mset_order_by: "mset (order_by ties key rows) = mset rows"
  by (simp add: order_by_def mset_fold_swap_neighbours)

lemma sorted_order_by: "sorted (map key (order_by ties key rows))"
  by (simp add: order_by_def)

lemma fold_swap_neighbours_short:
  "length rows \<le> 1 \<Longrightarrow> fold swap_neighbours ties rows = rows"
  by (induction ties) (simp_all add: swap_neighbours_def)

lemma order_by_Nil [simp]: "order_by ties key [] = []"
  by (simp add: order_by_def fold_swap_neighbours_short)

lemma order_by_single [simp]: "order_by ties key [x] = [x]"
  by (simp add: order_by_def fold_swap_neighbours_short)

lemma process_conflicts_list:
  "fst (process_conflicts store cs (conflicts, cells)) = conflicts @ cs"
  by (induction cs arbitrary: conflicts cells) simp_all

text \<open>
  C1, evaluated where it fails. For every store and every order of ties, the conflict
  list of the whole-store detector has the rows of the self-join of \<^verbatim>\<open>SCHEDULE\<close> and
  no others, sorted by day, period and faculty. In a store where teacher T1 is booked for
  CSE and ECE on Monday, period 1, in \<^verbatim>\<open>SCHEDULED_LESSONS\<close> only, it returns no
  conflict and no cell, while the per-section detector of \<^verbatim>\<open>temp_timetable.py\<close>,
  which runs both scans, reports the conflict for CSE.
\<close>

theorem check_faculty_conflicts_skips_legacy_scan:
  "fst (check_faculty_conflicts ties (Some d)) =
     (case SCHEDULE d of
        None \<Rightarrow> []
      | Some rows \<Rightarrow>
          order_by ties (\<lambda>(day_id, period_id, fini, section1, section2).
                           (day_id, period_id, fini))
            (schedule_self_join (\<lambda>s1. True) rows))
   \<and> mset (fst (check_faculty_conflicts ties (Some d))) =
     mset (case SCHEDULE d of
             None \<Rightarrow> []
           | Some rows \<Rightarrow> schedule_self_join (\<lambda>s1. True) rows)
   \<and> sorted (map (\<lambda>(day_id, period_id, fini, section1, section2). (day_id, period_id, fini))
              (fst (check_faculty_conflicts ties (Some d))))
   \<and> check_faculty_conflicts ties (Some legacy_conflict_db) = ([], {})
   \<and> TimetableApp_check_faculty_conflicts ties ties2 legacy_conflict_db ''CSE''
       = [(''Mo'', 1, Some ''JD'', ''CSE'', ''ECE'')]"
proof (intro conjI)
  show list: "fst (check_faculty_conflicts ties (Some d)) =
     (case SCHEDULE d of
        None \<Rightarrow> []
      | Some rows \<Rightarrow>
          order_by ties (\<lambda>(day_id, period_id, fini, section1, section2).
                           (day_id, period_id, fini))
            (schedule_self_join (\<lambda>s1. True) rows))"
    by (simp add: check_faculty_conflicts_def process_conflicts_list split: option.splits)
  show "mset (fst (check_faculty_conflicts ties (Some d))) =
     mset (case SCHEDULE d of
             None \<Rightarrow> []
           | Some rows \<Rightarrow> schedule_self_join (\<lambda>s1. True) rows)"
    by (simp add: list mset_order_by split: option.splits)
  show "sorted (map (\<lambda>(day_id, period_id, fini, section1, section2). (day_id, period_id, fini))
              (fst (check_faculty_conflicts ties (Some d))))"
    by (simp add: list sorted_order_by split: option.splits)
next
  show "check_faculty_conflicts ties (Some legacy_conflict_db) = ([], {})"
    by (simp add: check_faculty_conflicts_def legacy_conflict_db_def empty_db_def
          schedule_self_join_def)
next
  show "TimetableApp_check_faculty_conflicts ties ties2 legacy_conflict_db ''CSE''
          = [(''Mo'', 1, Some ''JD'', ''CSE'', ''ECE'')]"
    by (simp add: TimetableApp_check_faculty_conflicts_def legacy_conflict_db_def empty_db_def
          schedule_self_join_def lessons_self_join_def teacher_T1_def)
qed

subsection \<open>The loader\<close>

lemmas loader_eval =
  load_timetable_data_def after_SCHEDULE_pass_def init_grid_def load_subject_colors_def
  fetch_lesson_types_def select_schedule_entries_def select_lesson_entries_def
  left_join_subjects_def left_join_faculty_def process_schedule_entry_def
  process_lesson_entry_def make_lesson_def set_cell_def get_cell_def py_index_def
  day_name_of_id_def day_name_of_code_def day_names_def day_codes_def empty_db_def
  maths_def teacher_T1_def schedule_join_def Let_def

text \<open>
  C4, evaluated where it fails. Class CSE has one \<^verbatim>\<open>SCHEDULE\<close> row, on day 0 with
  period id -1, and the grid has the day Monday and six periods. The row is not dropped:
  the \<^verbatim>\<open>SCHEDULE\<close> pass tests only \<^verbatim>\<open>period_id >= periods_per_day\<close>, and the list
  assignment with index -1 writes the lesson into the last cell, period index 5. The
  \<^verbatim>\<open>SCHEDULED_LESSONS\<close> pass also tests \<^verbatim>\<open>period_idx < 0\<close>: a legacy row with period
  number 0 leaves all six cells empty.
\<close>

theorem negative_period_written_to_last_cell:
  "get_cell (load_timetable_data [''CSE''] [''Monday''] 6 (Some negative_period_db))
     ''CSE'' ''Monday'' 5
     = Inr (Some \<lparr>subject = ''Ma'', teacher = Some ''JD'', full_name = Some ''Maths'',
                  subcode = Some ''Ma'', color = None, lesson_type = Some ''Single''\<rparr>)
   \<and> map_option (\<lambda>class_data. class_data ''Monday'')
       (load_timetable_data [''CSE''] [''Monday''] 6 (Some zero_period_legacy_db) ''CSE'')
     = Some (Some (replicate 6 None))"
  by (simp add: loader_eval negative_period_db_def zero_period_legacy_db_def)

text \<open>
  C6, evaluated where it fails. The \<^verbatim>\<open>SCHEDULE\<close> row of an unassigned slot holds the
  string NULL as subject and as faculty. The loader's cell for it has an empty subject
  abbreviation (no subject row joins), but its teacher code is the string NULL itself:
  the loader never compares \<^verbatim>\<open>sch.FINI\<close> with the sentinel. The display path of
  \<^verbatim>\<open>temp_timetable.py\<close> does, and shows a dash for the same row.
\<close>

theorem loader_keeps_NULL_teacher:
  "get_cell (load_timetable_data [''CSE''] [''Monday''] 2 (Some null_sentinel_db))
     ''CSE'' ''Monday'' 0
     = Inr (Some \<lparr>subject = [], teacher = Some ''NULL'', full_name = None,
                  subcode = None, color = None, lesson_type = Some ''Single''\<rparr>)
   \<and> lesson_text None ''NULL'' None = ''None'' @ [CHR 0x0A] @ ''-''"
  by (simp add: loader_eval null_sentinel_db_def lesson_text_def py_str_def)

text \<open>
  C3, as the claim states it, fails. The cell (CSE, Monday, period 0) is populated in both
  tables, with subject XX in \<^verbatim>\<open>SCHEDULE\<close> and Ma in \<^verbatim>\<open>SCHEDULED_LESSONS\<close>. XX has no
  row in \<^verbatim>\<open>SUBJECTS\<close>, so the cell written by the first pass has an empty subject
  abbreviation; the second pass tests \<^verbatim>\<open>.get("subject")\<close>, finds it empty and overwrites
  the cell, which is not empty, with the legacy lesson.
\<close>

theorem legacy_overwrites_current_counterexample:
  "get_cell (after_SCHEDULE_pass [''CSE''] [''Monday''] 2 both_schemas_db) ''CSE'' ''Monday'' 0
     = Inr (Some \<lparr>subject = [], teacher = Some ''AB'', full_name = None,
                  subcode = None, color = None, lesson_type = Some ''Single''\<rparr>)
   \<and> get_cell (load_timetable_data [''CSE''] [''Monday''] 2 (Some both_schemas_db))
       ''CSE'' ''Monday'' 0
     = Inr (Some \<lparr>subject = ''Ma'', teacher = Some ''JD'', full_name = Some ''Maths'',
                  subcode = Some ''Ma'', color = None, lesson_type = Some ''Single''\<rparr>)"
  by (simp add: loader_eval both_schemas_db_def)

text \<open>
  The \<^verbatim>\<open>SCHEDULE\<close> pass on a store without negative period ids. The grid keeps its
  shape, no write raises, and a cell is written exactly by the rows of its class, day and
  period.
\<close>

lemma py_index_update [simp]: "py_index (xs[j := v]) i = py_index xs i"
  by (simp add: py_index_def)

lemma fold_upd_const:
  "fold (\<lambda>k m. m(k \<mapsto> v)) ks m0 k' = (if k' \<in> set ks then Some v else m0 k')"
  by (induction ks arbitrary: m0) auto

lemma init_grid_shape: "grid_shape class_names days periods_per_day
                          (init_grid class_names days periods_per_day)"
  unfolding grid_shape_def init_grid_def by (simp add: fold_upd_const)

lemma set_cell_in_shape:
  assumes shape: "grid_shape cs days ppd g"
      and c: "c \<in> set cs" and day: "day \<in> set days" and i: "0 \<le> i" "i < ppd"
  shows "\<exists>class_data cells.
           g c = Some class_data \<and> class_data day = Some cells \<and> length cells = nat ppd
           \<and> set_cell g c day i v = Inr (g(c \<mapsto> class_data(day \<mapsto> cells[nat i := v])))"
proof -
  from shape c day obtain class_data cells where
      g: "g c = Some class_data" "class_data day = Some cells" "length cells = nat ppd"
    unfolding grid_shape_def by blast
  have "py_index cells i = Some (nat i)"
    using i g(3) by (simp add: py_index_def)
  then show ?thesis using g by (simp add: set_cell_def)
qed

lemma shape_after_write:
  assumes shape: "grid_shape cs days ppd g"
      and g: "g c = Some class_data" "class_data day = Some cells"
  shows "grid_shape cs days ppd (g(c \<mapsto> class_data(day \<mapsto> cells[j := v])))"
  unfolding grid_shape_def
proof (intro ballI)
  fix c' day' assume c': "c' \<in> set cs" and day': "day' \<in> set days"
  from shape c' day' obtain cd' cells' where
      g': "g c' = Some cd'" "cd' day' = Some cells'" "length cells' = nat ppd"
    unfolding grid_shape_def by blast
  show "\<exists>class_data' day_data.
          (g(c \<mapsto> class_data(day \<mapsto> cells[j := v]))) c' = Some class_data'
          \<and> class_data' day' = Some day_data \<and> length day_data = nat ppd"
    using g g' by (cases "c' = c"; cases "day' = day") auto
qed

lemma get_cell_after_write:
  assumes g: "g c = Some class_data" "class_data day = Some cells" "length cells = nat ppd"
      and i: "0 \<le> i" "i < ppd" and i': "0 \<le> i'" "i' < ppd"
  shows "get_cell (g(c \<mapsto> class_data(day \<mapsto> cells[nat i := v]))) c' day' i'
           = (if c' = c \<and> day' = day \<and> i' = i then Inr v else get_cell g c' day' i')"
proof -
  have idx: "py_index cells i' = Some (nat i')" "nat i < length cells" "nat i' < length cells"
    using i i' g(3) by (simp_all add: py_index_def)
  show ?thesis
  proof (cases "c' = c \<and> day' = day")
    case False
    then show ?thesis using g by (auto simp: get_cell_def)
  next
    case True
    then show ?thesis using g idx i i' by (auto simp: get_cell_def)
  qed
qed

lemma process_schedule_entry_step:
  assumes shape: "grid_shape cs days ppd g" and c: "c \<in> set cs" and nonneg: "0 \<le> period_id"
      and T: "day_name \<in> set days" "0 \<le> period" "period < ppd"
  shows "\<exists>g'. process_schedule_entry sc lt days ppd c
                (day_id, period_id, sn, fi, scode, col) g = Inr g'
           \<and> grid_shape cs days ppd g'
           \<and> get_cell g' class_name day_name period
               = (if c = class_name \<and> day_name_of_id day_id = day_name \<and> period_id = period
                  then Inr (Some (make_lesson sc lt sn fi scode col))
                  else get_cell g class_name day_name period)"
proof (cases "day_name_of_id day_id \<notin> set days \<or> period_id \<ge> ppd")
  case True
  then have "process_schedule_entry sc lt days ppd c (day_id, period_id, sn, fi, scode, col) g
               = Inr g"
    by (auto simp: process_schedule_entry_def)
  moreover have "\<not> (c = class_name \<and> day_name_of_id day_id = day_name \<and> period_id = period)"
    using True T by auto
  ultimately show ?thesis using shape by auto
next
  case False
  let ?v = "Some (make_lesson sc lt sn fi scode col)"
  from False have day: "day_name_of_id day_id \<in> set days" and lt: "period_id < ppd" by auto
  from set_cell_in_shape [OF shape c day nonneg lt, of ?v] obtain class_data cells where
      g: "g c = Some class_data" "class_data (day_name_of_id day_id) = Some cells"
         "length cells = nat ppd"
     and w: "set_cell g c (day_name_of_id day_id) period_id ?v
               = Inr (g(c \<mapsto> class_data(day_name_of_id day_id \<mapsto> cells[nat period_id := ?v])))"
    by blast
  let ?g' = "g(c \<mapsto> class_data(day_name_of_id day_id \<mapsto> cells[nat period_id := ?v]))"
  have "process_schedule_entry sc lt days ppd c (day_id, period_id, sn, fi, scode, col) g
          = Inr ?g'"
    using False w by (simp add: process_schedule_entry_def)
  moreover have "grid_shape cs days ppd ?g'"
    using shape g(1,2) by (rule shape_after_write)
  moreover have "get_cell ?g' class_name day_name period
                   = (if class_name = c \<and> day_name = day_name_of_id day_id \<and> period = period_id
                      then Inr ?v else get_cell g class_name day_name period)"
    using g nonneg lt T(2,3) by (rule get_cell_after_write)
  ultimately show ?thesis by (intro exI [of _ ?g']) auto
qed

lemma run_loop_schedule:
  assumes c: "c \<in> set cs"
      and T: "day_name \<in> set days" "0 \<le> period" "period < ppd"
      and nonneg: "\<forall>e \<in> set es. 0 \<le> fst (snd e)"
      and same: "\<forall>(day_id, period_id, sn, fi, scode, col) \<in> set es.
                   c = class_name \<and> day_name_of_id day_id = day_name \<and> period_id = period
                   \<longrightarrow> make_lesson sc lt sn fi scode col = l"
      and shape: "grid_shape cs days ppd g"
  shows "\<exists>g'. run_loop (process_schedule_entry sc lt days ppd c) es g = (None, g')
           \<and> grid_shape cs days ppd g'
           \<and> (get_cell g class_name day_name period = Inr (Some l)
                \<longrightarrow> get_cell g' class_name day_name period = Inr (Some l))
           \<and> (c = class_name
                \<and> (\<exists>(day_id, period_id, rest) \<in> set es.
                      day_name_of_id day_id = day_name \<and> period_id = period)
                \<longrightarrow> get_cell g' class_name day_name period = Inr (Some l))"
  using nonneg same shape
proof (induction es arbitrary: g)
  case Nil
  then show ?case by simp
next
  case (Cons e es)
  obtain day_id period_id sn fi scode col where e: "e = (day_id, period_id, sn, fi, scode, col)"
    by (metis prod_cases6)
  have p: "0 \<le> period_id" using Cons.prems(1) e by simp
  from process_schedule_entry_step [OF Cons.prems(3) c p T, of sc lt day_id sn fi scode col
         class_name]
  obtain g1 where
      s: "process_schedule_entry sc lt days ppd c e g = Inr g1" "grid_shape cs days ppd g1"
     and cell: "get_cell g1 class_name day_name period
              = (if c = class_name \<and> day_name_of_id day_id = day_name \<and> period_id = period
                 then Inr (Some (make_lesson sc lt sn fi scode col))
                 else get_cell g class_name day_name period)"
    unfolding e by blast
  have here: "c = class_name \<and> day_name_of_id day_id = day_name \<and> period_id = period
              \<Longrightarrow> make_lesson sc lt sn fi scode col = l"
    using Cons.prems(2) e by simp
  have n': "\<forall>e \<in> set es. 0 \<le> fst (snd e)" using Cons.prems(1) by simp
  have s': "\<forall>(day_id, period_id, sn, fi, scode, col) \<in> set es.
              c = class_name \<and> day_name_of_id day_id = day_name \<and> period_id = period
              \<longrightarrow> make_lesson sc lt sn fi scode col = l"
    using Cons.prems(2) by simp
  from Cons.IH [OF n' s' s(2)] obtain g' where
      r: "run_loop (process_schedule_entry sc lt days ppd c) es g1 = (None, g')"
         "grid_shape cs days ppd g'"
     and keep: "get_cell g1 class_name day_name period = Inr (Some l)
                \<Longrightarrow> get_cell g' class_name day_name period = Inr (Some l)"
     and hit: "c = class_name
               \<and> (\<exists>(day_id, period_id, rest) \<in> set es.
                     day_name_of_id day_id = day_name \<and> period_id = period)
               \<Longrightarrow> get_cell g' class_name day_name period = Inr (Some l)"
    by blast
  have a: "get_cell g class_name day_name period = Inr (Some l)
           \<Longrightarrow> get_cell g' class_name day_name period = Inr (Some l)"
    using keep cell here by (auto split: if_splits)
  have b: "c = class_name
           \<and> (\<exists>(day_id, period_id, rest) \<in> set (e # es).
                 day_name_of_id day_id = day_name \<and> period_id = period)
           \<Longrightarrow> get_cell g' class_name day_name period = Inr (Some l)"
  proof -
    assume h: "c = class_name
               \<and> (\<exists>(day_id, period_id, rest) \<in> set (e # es).
                     day_name_of_id day_id = day_name \<and> period_id = period)"
    show ?thesis
    proof (cases "day_name_of_id day_id = day_name \<and> period_id = period")
      case True
      then show ?thesis using keep cell here h by simp
    next
      case False
      then show ?thesis using hit h e by auto
    qed
  qed
  show ?case
    using s(1) r a b by (intro exI [of _ g']) auto
qed

text \<open>
  A write into a cell whose subject abbreviation is empty or missing changes no cell that
  shows a subject.
\<close>

lemma py_index_less: "py_index xs i = Some j \<Longrightarrow> j < length xs"
  by (auto simp: py_index_def Let_def split: if_splits)

lemma set_cell_keeps:
  assumes w: "set_cell g c day i v = Inr g'"
      and old: "get_cell g c day i = Inr old"
      and empty: "case old of None \<Rightarrow> True | Some l' \<Rightarrow> subject l' = []"
      and shown: "get_cell g c' day' i' = Inr (Some l)" "subject l \<noteq> []"
  shows "get_cell g' c' day' i' = Inr (Some l)"
proof -
  from w obtain class_data day_data j where g:
      "g c = Some class_data" "class_data day = Some day_data" "py_index day_data i = Some j"
      "g' = g(c \<mapsto> class_data(day \<mapsto> day_data[j := v]))"
    by (auto simp: set_cell_def split: option.splits)
  have oldv: "old = day_data ! j"
    using old g by (simp add: get_cell_def)
  show ?thesis
  proof (cases "c' = c \<and> day' = day")
    case False
    then show ?thesis
      using shown(1) g by (auto simp: get_cell_def split: option.splits)
  next
    case True
    with shown(1) g obtain j' where j': "py_index day_data i' = Some j'" "day_data ! j' = Some l"
      by (auto simp: get_cell_def split: option.splits)
    have "j' \<noteq> j"
      using j'(2) oldv empty shown(2) by auto
    then show ?thesis
      using True g j' by (simp add: get_cell_def)
  qed
qed

lemma process_lesson_entry_keeps:
  assumes "process_lesson_entry subject_colors lesson_types days periods_per_day class_name e g
             = Inr g'"
      and "get_cell g c' day' i' = Inr (Some l)" "subject l \<noteq> []"
  shows "get_cell g' c' day' i' = Inr (Some l)"
proof -
  obtain day_code period_num subject_name faculty_ini subject_code entry_color
    where e: "e = (day_code, period_num, subject_name, faculty_ini, subject_code, entry_color)"
    by (metis prod_cases6)
  let ?day = "day_name_of_code day_code" and ?i = "period_num - 1"
  let ?v = "Some (make_lesson subject_colors lesson_types subject_name faculty_ini
                    subject_code entry_color)"
  show ?thesis
  proof (cases "?day \<notin> set days \<or> ?i \<ge> periods_per_day \<or> ?i < 0")
    case True
    then have "g' = g" using assms(1) by (auto simp: process_lesson_entry_def e Let_def)
    then show ?thesis using assms(2) by simp
  next
    case False
    then obtain old where old: "get_cell g class_name ?day ?i = Inr old"
      using assms(1) by (auto simp: process_lesson_entry_def e Let_def split: sum.splits)
    show ?thesis
    proof (cases "case old of None \<Rightarrow> True | Some l' \<Rightarrow> subject l' = []")
      case True
      then have "set_cell g class_name ?day ?i ?v = Inr g'"
        using assms(1) False old by (auto simp: process_lesson_entry_def e Let_def)
      then show ?thesis using old True assms(2,3) by (rule set_cell_keeps)
    next
      case no: False
      then have "g' = g"
        using assms(1) False old by (auto simp: process_lesson_entry_def e Let_def)
      then show ?thesis using assms(2) by simp
    qed
  qed
qed

lemma run_loop_lessons_keeps:
  assumes "get_cell g c' day' i' = Inr (Some l)" "subject l \<noteq> []"
  shows "get_cell (snd (run_loop (process_lesson_entry subject_colors lesson_types days
                                    periods_per_day class_name) es g)) c' day' i'
           = Inr (Some l)"
  using assms(1)
proof (induction es arbitrary: g)
  case Nil
  then show ?case by simp
next
  case (Cons e es)
  show ?case
  proof (cases "process_lesson_entry subject_colors lesson_types days periods_per_day
                  class_name e g")
    case (Inl err)
    then show ?thesis using Cons.prems by simp
  next
    case (Inr g')
    have "get_cell g' c' day' i' = Inr (Some l)"
      using Inr Cons.prems assms(2) by (rule process_lesson_entry_keeps)
    then show ?thesis using Cons.IH Inr by simp
  qed
qed

lemma load_from_SCHEDULED_LESSONS_keeps:
  assumes "get_cell g c' day' i' = Inr (Some l)" "subject l \<noteq> []"
  shows "get_cell (snd (load_from_SCHEDULED_LESSONS d subject_colors days periods_per_day
                          class_names g)) c' day' i'
           = Inr (Some l)"
  using assms(1)
proof (induction class_names arbitrary: g)
  case Nil
  then show ?case by simp
next
  case (Cons class_name rest)
  let ?body = "process_lesson_entry subject_colors (fetch_lesson_types d class_name) days
                 periods_per_day class_name"
  show ?case
  proof (cases "select_lesson_entries d class_name")
    case (Inl err)
    then show ?thesis using Cons.prems by simp
  next
    case (Inr es)
    obtain err g' where r: "run_loop ?body es g = (err, g')" by (cases "run_loop ?body es g")
    have g': "get_cell g' c' day' i' = Inr (Some l)"
      using run_loop_lessons_keeps [OF Cons.prems assms(2), of subject_colors
              "fetch_lesson_types d class_name" days periods_per_day class_name es] r
      by simp
    show ?thesis
    proof (cases err)
      case None
      then show ?thesis using Cons.IH [OF g'] Inr r by simp
    next
      case (Some x)
      then show ?thesis using g' Inr r by simp
    qed
  qed
qed

lemma schedule_join_period:
  assumes "e \<in> set (schedule_join rows subjects c)"
  shows "\<exists>r \<in> set rows. sch_SECTION r = c \<and> fst (snd e) = sch_PERIODID r"
  using assms unfolding schedule_join_def by auto

lemma load_from_SCHEDULE_cell:
  assumes tables: "SCHEDULE d = Some rows" "SUBJECTS d = Some subjects"
      and nonneg: "list_all (\<lambda>r. sch_SECTION r \<in> set cs \<longrightarrow> 0 \<le> sch_PERIODID r) rows"
      and T: "day_name \<in> set days" "0 \<le> period" "period < ppd"
      and same: "\<forall>(day_id, period_id, sn, fi, scode, col)
                     \<in> set (schedule_join rows subjects class_name).
                   day_name_of_id day_id = day_name \<and> period_id = period
                   \<longrightarrow> make_lesson sc (fetch_lesson_types d class_name) sn fi scode col = l"
      and sub: "set cl \<subseteq> set cs"
      and shape: "grid_shape cs days ppd g"
  shows "\<exists>g'. load_from_SCHEDULE d sc days ppd cl g = (None, g')
           \<and> grid_shape cs days ppd g'
           \<and> (get_cell g class_name day_name period = Inr (Some l)
                \<longrightarrow> get_cell g' class_name day_name period = Inr (Some l))
           \<and> (class_name \<in> set cl
                \<and> (\<exists>(day_id, period_id, rest) \<in> set (schedule_join rows subjects class_name).
                      day_name_of_id day_id = day_name \<and> period_id = period)
                \<longrightarrow> get_cell g' class_name day_name period = Inr (Some l))"
  using sub shape
proof (induction cl arbitrary: g)
  case Nil
  then show ?case by simp
next
  case (Cons c rest)
  let ?es = "sort_key (\<lambda>(day_id, period_id, rest). (day_id, period_id))
               (schedule_join rows subjects c)"
  have sel: "select_schedule_entries d c = Inr ?es"
    using tables by (simp add: select_schedule_entries_def)
  have es: "set ?es = set (schedule_join rows subjects c)" by simp
  have c: "c \<in> set cs" using Cons.prems(1) by simp
  have n: "\<forall>e \<in> set ?es. 0 \<le> fst (snd e)"
  proof
    fix e assume "e \<in> set ?es"
    then have "e \<in> set (schedule_join rows subjects c)" by simp
    from schedule_join_period [OF this] obtain r where
      "r \<in> set rows" "sch_SECTION r = c" "fst (snd e) = sch_PERIODID r" by blast
    then show "0 \<le> fst (snd e)" using nonneg c by (auto simp: list_all_iff)
  qed
  have s: "\<forall>(day_id, period_id, sn, fi, scode, col) \<in> set ?es.
             c = class_name \<and> day_name_of_id day_id = day_name \<and> period_id = period
             \<longrightarrow> make_lesson sc (fetch_lesson_types d c) sn fi scode col = l"
    unfolding es using same by auto
  from run_loop_schedule [OF c T n s Cons.prems(2)] obtain g1 where
      r: "run_loop (process_schedule_entry sc (fetch_lesson_types d c) days ppd c) ?es g
            = (None, g1)" "grid_shape cs days ppd g1"
     and keep1: "get_cell g class_name day_name period = Inr (Some l)
                 \<Longrightarrow> get_cell g1 class_name day_name period = Inr (Some l)"
     and hit1: "c = class_name
                \<and> (\<exists>(day_id, period_id, rest) \<in> set ?es.
                      day_name_of_id day_id = day_name \<and> period_id = period)
                \<Longrightarrow> get_cell g1 class_name day_name period = Inr (Some l)"
    by blast
  have sub': "set rest \<subseteq> set cs" using Cons.prems(1) by simp
  from Cons.IH [OF sub' r(2)] obtain g' where
      r': "load_from_SCHEDULE d sc days ppd rest g1 = (None, g')" "grid_shape cs days ppd g'"
     and keep2: "get_cell g1 class_name day_name period = Inr (Some l)
                 \<Longrightarrow> get_cell g' class_name day_name period = Inr (Some l)"
     and hit2: "class_name \<in> set rest
                \<and> (\<exists>(day_id, period_id, rest)
                       \<in> set (schedule_join rows subjects class_name).
                      day_name_of_id day_id = day_name \<and> period_id = period)
                \<Longrightarrow> get_cell g' class_name day_name period = Inr (Some l)"
    by blast
  have run: "load_from_SCHEDULE d sc days ppd (c # rest) g = (None, g')"
    using sel r(1) r'(1) by simp
  have a: "get_cell g class_name day_name period = Inr (Some l)
           \<Longrightarrow> get_cell g' class_name day_name period = Inr (Some l)"
    using keep1 keep2 by simp
  have b: "class_name \<in> set (c # rest)
           \<and> (\<exists>(day_id, period_id, rest) \<in> set (schedule_join rows subjects class_name).
                 day_name_of_id day_id = day_name \<and> period_id = period)
           \<Longrightarrow> get_cell g' class_name day_name period = Inr (Some l)"
  proof -
    assume h: "class_name \<in> set (c # rest)
               \<and> (\<exists>(day_id, period_id, rest)
                      \<in> set (schedule_join rows subjects class_name).
                     day_name_of_id day_id = day_name \<and> period_id = period)"
    show ?thesis
    proof (cases "class_name \<in> set rest")
      case True
      then show ?thesis using hit2 h by simp
    next
      case False
      then have "c = class_name" using h by auto
      then have "get_cell g1 class_name day_name period = Inr (Some l)"
        using hit1 h unfolding es by simp
      then show ?thesis by (rule keep2)
    qed
  qed
  show ?case using run r'(2) a b by (intro exI [of _ g']) auto
qed

text \<open>
  C3, amended. Take a store in which no \<^verbatim>\<open>SCHEDULE\<close> row of a listed class has a
  negative period id, and a cell of the grid (a listed class, a displayed day, a period
  from 0 below \<^verbatim>\<open>periods_per_day\<close>) for which the \<^verbatim>\<open>SCHEDULE\<close> query of the class
  has at least one row, all its rows for the cell giving the same lesson \<open>l\<close>, with a
  non-empty subject abbreviation. The loader's output holds \<open>l\<close> in the cell, whatever
  \<^verbatim>\<open>SCHEDULED_LESSONS\<close> holds for it.
\<close>

theorem current_schema_wins_when_subject_shown:
  assumes "no_negative_periods class_names d"
      and "class_name \<in> set class_names" and "day_name \<in> set days"
      and "0 \<le> period" and "period < periods_per_day"
      and "set (current_lessons d class_name day_name period) = {l}"
      and "subject l \<noteq> []"
  shows "get_cell (load_timetable_data class_names days periods_per_day (Some d))
           class_name day_name period = Inr (Some l)"
proof -
  let ?sc = "load_subject_colors (Some d)" and ?lt = "fetch_lesson_types d class_name"
  have "current_lessons d class_name day_name period \<noteq> []"
    using assms(6) by auto
  then obtain rows subjects where
      tables: "SCHEDULE d = Some rows" "SUBJECTS d = Some subjects"
    by (cases "SCHEDULE d"; cases "SUBJECTS d") (simp_all add: current_lessons_def)
  let ?es = "schedule_join rows subjects class_name"
  have cur: "set (map (\<lambda>(day_id, period_id, subject_name, faculty_ini, subject_code,
                          entry_color).
                         make_lesson ?sc ?lt subject_name faculty_ini subject_code entry_color)
                    (filter (\<lambda>(day_id, period_id, rest).
                               day_name_of_id day_id = day_name \<and> period_id = period) ?es))
               = {l}"
    using assms(6) tables by (simp add: current_lessons_def)
  have nonneg: "list_all (\<lambda>r. sch_SECTION r \<in> set class_names \<longrightarrow> 0 \<le> sch_PERIODID r) rows"
    using assms(1) tables by (simp add: no_negative_periods_def)
  have same: "\<forall>(day_id, period_id, sn, fi, scode, col) \<in> set ?es.
                day_name_of_id day_id = day_name \<and> period_id = period
                \<longrightarrow> make_lesson ?sc ?lt sn fi scode col = l"
  proof (clarify)
    fix day_id period_id sn fi scode col
    assume "(day_id, period, sn, fi, scode, col) \<in> set ?es"
       and "day_name = day_name_of_id day_id"
    then have "make_lesson ?sc ?lt sn fi scode col \<in> {l}"
      unfolding cur [symmetric] by force
    then show "make_lesson ?sc ?lt sn fi scode col = l" by simp
  qed
  have "l \<in> {l}" by simp
  then have ex: "\<exists>(day_id, period_id, rest) \<in> set ?es.
                   day_name_of_id day_id = day_name \<and> period_id = period"
    unfolding cur [symmetric] by auto
  from load_from_SCHEDULE_cell [OF tables nonneg assms(3,4,5) same subset_refl
         init_grid_shape]
  have "get_cell (after_SCHEDULE_pass class_names days periods_per_day d)
          class_name day_name period = Inr (Some l)"
    using assms(2) ex unfolding after_SCHEDULE_pass_def by auto
  then show ?thesis
    unfolding load_timetable_data_def option.case
    using assms(7) by (rule load_from_SCHEDULED_LESSONS_keeps)
qed

theorem current_schema_wins_when_subject_shown_witness:
  "no_negative_periods [''CSE''] current_wins_db
   \<and> set (current_lessons current_wins_db ''CSE'' ''Monday'' 0)
       = {\<lparr>subject = ''Ph'', teacher = Some ''AB'', full_name = Some ''Physics'',
           subcode = Some ''Ph'', color = None, lesson_type = Some ''Single''\<rparr>}
   \<and> select_lesson_entries current_wins_db ''CSE''
       = Inr [(''Mo'', 1, Some ''Maths'', Some ''JD'', Some ''Ma'', None)]
   \<and> get_cell (load_timetable_data [''CSE''] [''Monday''] 2 (Some current_wins_db))
       ''CSE'' ''Monday'' 0
     = Inr (Some \<lparr>subject = ''Ph'', teacher = Some ''AB'', full_name = Some ''Physics'',
                  subcode = Some ''Ph'', color = None, lesson_type = Some ''Single''\<rparr>)"
proof -
  let ?l = "\<lparr>subject = ''Ph'', teacher = Some ''AB'', full_name = Some ''Physics'',
             subcode = Some ''Ph'', color = None, lesson_type = Some ''Single''\<rparr>"
  have a: "no_negative_periods [''CSE''] current_wins_db"
    by (simp add: no_negative_periods_def current_wins_db_def empty_db_def)
  have b: "set (current_lessons current_wins_db ''CSE'' ''Monday'' 0) = {?l}"
    by (simp add: current_lessons_def schedule_join_def loader_eval current_wins_db_def)
  have c: "select_lesson_entries current_wins_db ''CSE''
             = Inr [(''Mo'', 1, Some ''Maths'', Some ''JD'', Some ''Ma'', None)]"
    by (simp add: loader_eval current_wins_db_def)
  have d: "''CSE'' \<in> set [''CSE'']" "''Monday'' \<in> set [''Monday'']" "(0::int) \<le> 0"
          "(0::int) < 2" "subject ?l \<noteq> []"
    by simp_all
  show ?thesis
    using a b c current_schema_wins_when_subject_shown [OF a d(1,2,3,4) b d(5)] by simp
qed

subsection \<open>The span projection\<close>

text \<open>
  C9, evaluated where it fails. The grid shows the classes CSE and ECE on Monday with six
  periods; CSE has a double lesson at period 0 and ECE a single lesson at period 0. The
  scan renders the two lessons, CSE's with a span of two columns, and marks CSE's period 1
  as consumed. But the merged frame of CSE is gridded with the \<^verbatim>\<open>row\<close> the re-grid loop
  left behind, which is the row of the last class, ECE: it lands in row 3, columns 1 and
  2, on top of ECE's own frame at row 3, column 1. The slot of ECE's period 0 is claimed
  by two frames, and no rendered frame is left at CSE's period 0 in CSE's row 2.
\<close>

theorem merged_frame_gridded_in_last_row:
  "load_data [''CSE'', ''ECE''] [''Monday''] six_periods two_class_grid
     = ([((0, 0, 0), (3, 1, 2), lesson_of_type ''Double''),
         ((1, 0, 0), (3, 1, 1), lesson_of_type ''Single'')],
        {(0, 0, 0), (0, 0, 1), (1, 0, 0)})
   \<and> filter (\<lambda>r. occupies r (3, 1))
        (fst (load_data [''CSE'', ''ECE''] [''Monday''] six_periods two_class_grid))
     = [((0, 0, 0), (3, 1, 2), lesson_of_type ''Double''),
        ((1, 0, 0), (3, 1, 1), lesson_of_type ''Single'')]
   \<and> filter (\<lambda>r. occupies r (2, 1))
        (fst (load_data [''CSE'', ''ECE''] [''Monday''] six_periods two_class_grid))
     = []"
proof -
  have run: "load_data [''CSE'', ''ECE''] [''Monday''] six_periods two_class_grid
               = ([((0, 0, 0), (3, 1, 2), lesson_of_type ''Double''),
                   ((1, 0, 0), (3, 1, 1), lesson_of_type ''Single'')],
                  {(0, 0, 0), (0, 0, 1), (1, 0, 0)})"
    by (auto simp: load_data_def two_class_grid_def six_periods_def in_timetable_cells_def
          colspan_of_def mark_next_def frame_placement_def stale_row_def lesson_of_type_def
          Let_def)
  show ?thesis unfolding run by (simp add: occupies_def)
qed

end
